theory Spec2Isabelle
  imports Main "HOL-Library.Word" "HOL-Library.Monad_Syntax" "HOL-Library.Sublist"
begin

section \<open>Go integers and the runtime state\<close>

text \<open>
  Go's \<^verbatim>\<open>int\<close> on the 64-bit platforms the server runs on: a 64-bit two's complement
  integer. Arithmetic wraps, comparisons are signed (\<open>\<le>s\<close>, \<open><s\<close>, read through \<open>sint\<close>).
\<close>

type_synonym goint = "64 word"

text \<open>
  The package keeps no state of its own, but it draws from the process-wide source of
  \<^verbatim>\<open>math/rand\<close> and prints diagnostics. Both are threaded explicitly:
  \<open>draws\<close> is the raw stream of the generator, \<open>pos\<close> the number of draws consumed so
  far, \<open>printed\<close> what \<^verbatim>\<open>fmt.Printf\<close> has written.
\<close>

record runtime =
  draws :: "nat \<Rightarrow> nat"
  pos :: nat
  printed :: "string list"

text \<open>
  \<^verbatim>\<open>rand.Intn(n)\<close> panics when \<open>n \<le> 0\<close> (the result \<open>None\<close>); otherwise it consumes one
  draw and returns a value of \<open>[0, n)\<close>. Reducing the raw draw modulo \<open>n\<close> loses nothing:
  every sequence of outcomes the real generator can produce is the image of some raw
  stream.
\<close>

definition Intn :: "goint \<Rightarrow> runtime \<Rightarrow> (goint \<times> runtime) option" where
  "Intn n w =
     (if n \<le>s 0 then None
      else Some (word_of_int (int (draws w (pos w)) mod sint n), w\<lparr>pos := Suc (pos w)\<rparr>))"

definition Printf :: "string \<Rightarrow> runtime \<Rightarrow> runtime" where
  "Printf msg w = w\<lparr>printed := printed w @ [msg]\<rparr>"

section \<open>Struct definitions\<close>

record Value =
  Min_val :: goint
  Max_val :: goint

record EnchantConfig =
  ID_ec :: string
  Level :: Value

record Function =
  Function :: string
  Count :: Value
  Levels :: Value
  ID :: string
  Enchants :: "EnchantConfig list"

record Entry =
  Type :: string
  Name :: string
  Weight :: goint
  Functions :: "Function list"

record Pool =
  Rolls :: Value
  Entries :: "Entry list"

record LootTable =
  Pools :: "Pool list"

section \<open>The catalogues of the item package\<close>

datatype enchantment =
    Protection | FireProtection | FeatherFalling | BlastProtection | ProjectileProtection
  | Thorns | Respiration | DepthStrider | AquaAffinity | Sharpness | Knockback | FireAspect
  | Efficiency | SilkTouch | Unbreaking | Fortune | Power | Punch | Flame | Infinity
  | Mending | CurseOfVanishing | Multishot | QuickCharge | SoulSpeed | SwiftSneak

datatype potion =
    Water | Mundane | LongMundane | Thick | Awkward | NightVision | LongNightVision
  | Invisibility | LongInvisibility | Leaping | LongLeaping | StrongLeaping
  | FireResistance | LongFireResistance | Swiftness | LongSwiftness | StrongSwiftness
  | Slowness | LongSlowness | StrongSlowness | WaterBreathing | LongWaterBreathing
  | Healing | StrongHealing | Harming | StrongHarming | Poison | LongPoison | StrongPoison
  | Regeneration | LongRegeneration | StrongRegeneration | Strength | LongStrength
  | StrongStrength | Weakness | LongWeakness | Wither | TurtleMaster | LongTurtleMaster
  | StrongTurtleMaster | SlowFalling | LongSlowFalling

datatype 'a item = Potion potion | SplashPotion potion | OtherItem 'a


text \<open>
  What the package uses of its collaborators (the item registry of package
  \<^verbatim>\<open>world\<close>, the stacks and enchantment types of package \<^verbatim>\<open>item\<close>,
  \<^verbatim>\<open>strings.ToLower\<close>) is not part of the loot package. It is taken as a parameter,
  so every statement below holds for any registry and any implementation of stacks:
  \<^item> \<open>ItemByName\<close> is \<^verbatim>\<open>world.ItemByName(name, meta)\<close>;
  \<^item> \<open>CompatibleWithItem\<close> and \<open>MaxLevel\<close> are the methods of an enchantment type;
  \<^item> \<open>EmptyStack\<close> is the zero value \<^verbatim>\<open>item.Stack{}\<close>, \<open>NewStack\<close> is
    \<^verbatim>\<open>item.NewStack\<close>, \<open>StackItem\<close> and \<open>StackCount\<close> are \<^verbatim>\<open>s.Item()\<close> and
    \<^verbatim>\<open>s.Count()\<close>;
  \<^item> \<open>WithEnchantments s (t, lvl)\<close> is
    \<^verbatim>\<open>s.WithEnchantments(item.NewEnchantment(t, lvl))\<close>.
  The type \<open>'s\<close> is the type of stacks; an item is a drinkable potion, a splash potion,
  or of some other kind \<open>'a\<close> (the two type assertions of \<^verbatim>\<open>set_potion\<close> are the
  first two constructors). The operations are total functions: what the collaborators do
  inside, a failure of their own included, is not part of this development.
\<close>

record ('a, 's) env =
  ItemByName :: "string \<Rightarrow> 16 word \<Rightarrow> 'a item option"
  CompatibleWithItem :: "enchantment \<Rightarrow> 'a item \<Rightarrow> bool"
  MaxLevel :: "enchantment \<Rightarrow> goint"
  EmptyStack :: "'s"
  NewStack :: "'a item \<Rightarrow> goint \<Rightarrow> 's"
  WithEnchantments :: "'s \<Rightarrow> enchantment \<times> goint \<Rightarrow> 's"
  StackItem :: "'s \<Rightarrow> 'a item"
  StackCount :: "'s \<Rightarrow> goint"
  ToLower :: "string \<Rightarrow> string"

section \<open>Rolling a value range\<close>

definition RollValue :: "Value \<Rightarrow> runtime \<Rightarrow> (goint \<times> runtime) option" where
  "RollValue v w =
     (if Max_val v \<le>s Min_val v then Some (Min_val v, w)
      else do {
        (r, w') \<leftarrow> Intn (Max_val v - Min_val v + 1) w;
        Some (r + Min_val v, w')
      })"

section \<open>Registries\<close>

definition TrimPrefix :: "string \<Rightarrow> string \<Rightarrow> string" where
  "TrimPrefix s p = (if prefix p s then drop (length p) s else s)"

definition enchantment_names :: "(string \<times> enchantment) list" where
  "enchantment_names =
    [(''protection'', Protection),
     (''fire_protection'', FireProtection),
     (''feather_falling'', FeatherFalling),
     (''blast_protection'', BlastProtection),
     (''projectile_protection'', ProjectileProtection),
     (''thorns'', Thorns),
     (''respiration'', Respiration),
     (''depth_strider'', DepthStrider),
     (''aqua_affinity'', AquaAffinity),
     (''sharpness'', Sharpness),
     (''knockback'', Knockback),
     (''fire_aspect'', FireAspect),
     (''efficiency'', Efficiency),
     (''silk_touch'', SilkTouch),
     (''unbreaking'', Unbreaking),
     (''fortune'', Fortune),
     (''power'', Power),
     (''punch'', Punch),
     (''flame'', Flame),
     (''infinity'', Infinity),
     (''mending'', Mending),
     (''curse_of_vanishing'', CurseOfVanishing),
     (''multishot'', Multishot),
     (''quick_charge'', QuickCharge),
     (''soul_speed'', SoulSpeed),
     (''swift_sneak'', SwiftSneak)]"

definition enchantmentByName :: "('a, 's) env \<Rightarrow> string \<Rightarrow> enchantment option" where
  "enchantmentByName env name =
     map_of enchantment_names (ToLower env (TrimPrefix name ''minecraft:''))"

definition getAllEnchantments :: "enchantment list" where
  "getAllEnchantments =
    [Protection, FireProtection, FeatherFalling,
     BlastProtection, ProjectileProtection, Thorns,
     Respiration, DepthStrider, AquaAffinity,
     Sharpness, Knockback, FireAspect,
     Efficiency, SilkTouch, Unbreaking,
     Fortune, Power, Punch,
     Flame, Infinity, Mending,
     CurseOfVanishing, Multishot, QuickCharge,
     SoulSpeed, SwiftSneak]"

definition potion_names :: "(string \<times> potion) list" where
  "potion_names =
    [(''water'', Water),
     (''mundane'', Mundane),
     (''long_mundane'', LongMundane),
     (''thick'', Thick),
     (''awkward'', Awkward),
     (''night_vision'', NightVision),
     (''long_night_vision'', LongNightVision),
     (''invisibility'', Invisibility),
     (''long_invisibility'', LongInvisibility),
     (''leaping'', Leaping),
     (''long_leaping'', LongLeaping),
     (''strong_leaping'', StrongLeaping),
     (''fire_resistance'', FireResistance),
     (''long_fire_resistance'', LongFireResistance),
     (''swiftness'', Swiftness),
     (''long_swiftness'', LongSwiftness),
     (''strong_swiftness'', StrongSwiftness),
     (''slowness'', Slowness),
     (''long_slowness'', LongSlowness),
     (''strong_slowness'', StrongSlowness),
     (''water_breathing'', WaterBreathing),
     (''long_water_breathing'', LongWaterBreathing),
     (''healing'', Healing),
     (''strong_healing'', StrongHealing),
     (''harming'', Harming),
     (''strong_harming'', StrongHarming),
     (''poison'', Poison),
     (''long_poison'', LongPoison),
     (''strong_poison'', StrongPoison),
     (''regeneration'', Regeneration),
     (''long_regeneration'', LongRegeneration),
     (''strong_regeneration'', StrongRegeneration),
     (''strength'', Strength),
     (''long_strength'', LongStrength),
     (''strong_strength'', StrongStrength),
     (''weakness'', Weakness),
     (''long_weakness'', LongWeakness),
     (''wither'', Wither),
     (''turtle_master'', TurtleMaster),
     (''long_turtle_master'', LongTurtleMaster),
     (''strong_turtle_master'', StrongTurtleMaster),
     (''slow_falling'', SlowFalling),
     (''long_slow_falling'', LongSlowFalling)]"

definition potionByName :: "('a, 's) env \<Rightarrow> string \<Rightarrow> potion option" where
  "potionByName env name =
     map_of potion_names (ToLower env (TrimPrefix name ''minecraft:''))"

section \<open>Application helpers\<close>

text \<open>
  \<^verbatim>\<open>applyRandomEnchant\<close>: the compatible enchantments in catalogue order, one of them
  drawn by index. An index outside the slice would panic.
\<close>

definition applyRandomEnchant :: "('a, 's) env \<Rightarrow> 's \<Rightarrow> runtime \<Rightarrow> ('s \<times> runtime) option" where
  "applyRandomEnchant env s w =
     (let valid = filter (\<lambda>enc. CompatibleWithItem env enc (StackItem env s)) getAllEnchantments
      in if 0 < length valid then do {
           (r, w') \<leftarrow> Intn (of_nat (length valid)) w;
           if 0 \<le>s r \<and> nat (sint r) < length valid
           then Some (WithEnchantments env s (valid ! nat (sint r), 1), w')
           else None
         }
         else Some (s, w))"

text \<open>
  \<^verbatim>\<open>applyEnchantWithLevels\<close>: the loop over the catalogue returns at the first
  compatible enchantment, but only inside the guard \<^verbatim>\<open>levels > 0\<close>.
\<close>

fun applyEnchantWithLevels_loop ::
  "('a, 's) env \<Rightarrow> enchantment list \<Rightarrow> 's \<Rightarrow> goint \<Rightarrow> runtime \<Rightarrow> ('s \<times> runtime) option" where
  "applyEnchantWithLevels_loop env [] s levels w = Some (s, w)"
| "applyEnchantWithLevels_loop env (enc # encs) s levels w =
     (if CompatibleWithItem env enc (StackItem env s) then
        if 0 <s levels then
          (let max = MaxLevel env enc in
           if 15 <s levels \<and> 1 <s max then do {
             (r, w') \<leftarrow> Intn max w;
             Some (WithEnchantments env s (enc, r + 1), w')
           }
           else Some (WithEnchantments env s (enc, 1), w))
        else applyEnchantWithLevels_loop env encs s levels w
      else applyEnchantWithLevels_loop env encs s levels w)"

definition applyEnchantWithLevels ::
  "('a, 's) env \<Rightarrow> 's \<Rightarrow> goint \<Rightarrow> runtime \<Rightarrow> ('s \<times> runtime) option" where
  "applyEnchantWithLevels env s levels w =
     applyEnchantWithLevels_loop env getAllEnchantments s levels w"


section \<open>Weighted entry selection and the function pipeline\<close>

text \<open>
  The first loop of \<^verbatim>\<open>rollEntry\<close>. The loop variable \<open>e\<close> of
  \<^verbatim>\<open>for _, e := range p.Entries\<close> is a copy of the slice element, so the assignment
  \<^verbatim>\<open>e.Weight = 1\<close> changes the copy: it is the copy's weight that is added to the total,
  and the element \<open>x\<close> stays in the slice as it was. The function returns the slice as the
  loop leaves it, together with the total.
\<close>

fun rollEntry_weights :: "Entry list \<Rightarrow> goint \<Rightarrow> Entry list \<times> goint" where
  "rollEntry_weights [] totalWeight = ([], totalWeight)"
| "rollEntry_weights (x # xs) totalWeight =
     (let e = x;
          e = (if Weight e = 0 then e\<lparr>Weight := 1\<rparr> else e);
          (xs', totalWeight) = rollEntry_weights xs (totalWeight + Weight e)
      in (x # xs', totalWeight))"

text \<open>The loop that computes \<open>count\<close>: every \<^verbatim>\<open>set_count\<close> rolls, the last one wins.\<close>

fun rollEntry_count :: "Function list \<Rightarrow> goint \<Rightarrow> runtime \<Rightarrow> (goint \<times> runtime) option" where
  "rollEntry_count [] count w = Some (count, w)"
| "rollEntry_count (f # fs) count w =
     (if Function f = ''set_count'' then do {
        (c, w') \<leftarrow> RollValue (Count f) w;
        rollEntry_count fs c w'
      }
      else rollEntry_count fs count w)"

text \<open>The loop of \<^verbatim>\<open>specific_enchants\<close> over the declared pairs.\<close>

fun specific_enchants ::
  "('a, 's) env \<Rightarrow> EnchantConfig list \<Rightarrow> 's \<Rightarrow> runtime \<Rightarrow> ('s \<times> runtime) option" where
  "specific_enchants env [] s w = Some (s, w)"
| "specific_enchants env (spec # specs) s w =
     (case enchantmentByName env (ID_ec spec) of
        Some enc \<Rightarrow> do {
          (lvl, w') \<leftarrow> RollValue (Level spec) w;
          specific_enchants env specs (WithEnchantments env s (enc, lvl)) w'
        }
      | None \<Rightarrow> specific_enchants env specs s w)"

definition set_potion :: "('a, 's) env \<Rightarrow> string \<Rightarrow> 's \<Rightarrow> 's" where
  "set_potion env name s =
     (case potionByName env name of
        Some pot \<Rightarrow>
          (case StackItem env s of
             Potion _ \<Rightarrow> NewStack env (Potion pot) (StackCount env s)
           | SplashPotion _ \<Rightarrow> NewStack env (SplashPotion pot) (StackCount env s)
           | OtherItem _ \<Rightarrow> s)
      | None \<Rightarrow> s)"

text \<open>
  The \<^verbatim>\<open>switch\<close> of the second loop over the functions. It has no case for
  \<^verbatim>\<open>set_count\<close>, and none for an unknown name.
\<close>

definition rollEntry_switch ::
  "('a, 's) env \<Rightarrow> Function \<Rightarrow> 's \<Rightarrow> runtime \<Rightarrow> ('s \<times> runtime) option" where
  "rollEntry_switch env f s w =
     (if Function f = ''enchant_randomly'' then applyRandomEnchant env s w
      else if Function f = ''enchant_with_levels'' then do {
        (levels, w') \<leftarrow> RollValue (Levels f) w;
        applyEnchantWithLevels env s levels w'
      }
      else if Function f = ''specific_enchants'' then specific_enchants env (Enchants f) s w
      else if Function f = ''set_potion'' then Some (set_potion env (ID f) s, w)
      else Some (s, w))"

fun rollEntry_functions ::
  "('a, 's) env \<Rightarrow> Function list \<Rightarrow> 's \<Rightarrow> runtime \<Rightarrow> ('s \<times> runtime) option" where
  "rollEntry_functions env [] s w = Some (s, w)"
| "rollEntry_functions env (f # fs) s w = do {
     (s', w') \<leftarrow> rollEntry_switch env f s w;
     rollEntry_functions env fs s' w'
   }"

text \<open>What \<^verbatim>\<open>rollEntry\<close> does with the entry the draw has selected.\<close>

definition rollEntry_selected ::
  "('a, 's) env \<Rightarrow> Entry \<Rightarrow> runtime \<Rightarrow> (('s \<times> bool) \<times> runtime) option" where
  "rollEntry_selected env e w =
     (if Type e \<noteq> ''item'' then Some ((EmptyStack env, False), w)
      else
        let name = TrimPrefix (Name e) ''minecraft:'' in
        case ItemByName env (''minecraft:'' @ name) 0 of
          None \<Rightarrow>
            Some ((EmptyStack env, False),
                  Printf (''[Loot System] Item not found: '' @ name @ [CHR 0x0A]) w)
        | Some it \<Rightarrow> do {
            (count, w1) \<leftarrow> rollEntry_count (Functions e) 1 w;
            (s, w2) \<leftarrow> rollEntry_functions env (Functions e) (NewStack env it count) w1;
            Some ((s, True), w2)
          })"

text \<open>The second loop over the entries: the running sum reads the weights in the slice.\<close>

fun rollEntry_pick ::
  "('a, 's) env \<Rightarrow> Entry list \<Rightarrow> goint \<Rightarrow> goint \<Rightarrow> runtime \<Rightarrow> (('s \<times> bool) \<times> runtime) option" where
  "rollEntry_pick env [] r current w = Some ((EmptyStack env, False), w)"
| "rollEntry_pick env (e # es) r current w =
     (let current = current + Weight e in
      if r <s current then rollEntry_selected env e w
      else rollEntry_pick env es r current w)"

text \<open>
  \<^verbatim>\<open>rollEntry\<close> has a pointer receiver: besides the stack and the flag it returns the
  pool as the call leaves it.
\<close>

definition rollEntry ::
  "('a, 's) env \<Rightarrow> Pool \<Rightarrow> runtime \<Rightarrow> (('s \<times> bool) \<times> Pool \<times> runtime) option" where
  "rollEntry env p w =
     (let (es, totalWeight) = rollEntry_weights (Entries p) 0;
          p = p\<lparr>Entries := es\<rparr>
      in if totalWeight \<le>s 0 then Some ((EmptyStack env, False), p, w)
         else do {
           (r, w1) \<leftarrow> Intn totalWeight w;
           (res, w2) \<leftarrow> rollEntry_pick env (Entries p) r 0 w1;
           Some (res, p, w2)
         })"

section \<open>Generation\<close>

text \<open>The inner loop \<^verbatim>\<open>for i := 0; i < rolls; i++\<close> of \<^verbatim>\<open>LootTable.Generate\<close>.\<close>

function Generate_rolls ::
  "('a, 's) env \<Rightarrow> Pool \<Rightarrow> goint \<Rightarrow> goint \<Rightarrow> 's list \<Rightarrow> runtime \<Rightarrow> ('s list \<times> Pool \<times> runtime) option" where
  "Generate_rolls env p i rolls stacks w =
     (if i <s rolls then
        (case rollEntry env p w of
           None \<Rightarrow> None
         | Some ((s, ok), p', w') \<Rightarrow>
             Generate_rolls env p' (i + 1) rolls (if ok then stacks @ [s] else stacks) w')
      else Some (stacks, p, w))"
  by pat_completeness auto

termination
proof -
  have succ: "sint (i + 1) = sint i + 1" if "i <s rolls" for i rolls :: goint
  proof -
    from that have "sint i + 1 < 2 ^ 63"
      using sint_lt [of rolls] by (simp add: word_sless_alt)
    moreover have "- (2 ^ 63) \<le> sint i + 1"
      using sint_ge [of i] by simp
    ultimately show ?thesis
      by (simp add: sint_word_add signed_take_bit_int_eq_self)
  qed
  show ?thesis
    by (relation "measure (\<lambda>(env, p, i, rolls, stacks, w). nat (sint rolls - sint i))")
       (auto simp: succ word_sless_alt)
qed

declare Generate_rolls.simps [simp del]

text \<open>
  The outer loop \<^verbatim>\<open>for _, p := range t.Pools\<close>. The loop variable \<open>p\<close> is a copy of
  the pool, whose \<open>Entries\<close> slice shares its elements with the pool in the table: what
  \<^verbatim>\<open>rollEntry\<close> leaves in the elements is what the table holds afterwards.
\<close>

fun Generate_pools ::
  "('a, 's) env \<Rightarrow> Pool list \<Rightarrow> 's list \<Rightarrow> runtime \<Rightarrow> ('s list \<times> Pool list \<times> runtime) option" where
  "Generate_pools env [] stacks w = Some (stacks, [], w)"
| "Generate_pools env (x # xs) stacks w = do {
     let p = x;
     (rolls, w1) \<leftarrow> RollValue (Rolls p) w;
     (stacks, p, w2) \<leftarrow> Generate_rolls env p 0 rolls stacks w1;
     (stacks, xs', w3) \<leftarrow> Generate_pools env xs stacks w2;
     Some (stacks, x\<lparr>Entries := Entries p\<rparr> # xs', w3)
   }"

text \<open>
  \<^verbatim>\<open>LootTable.Generate\<close>: the stacks, and the table as the call leaves it.
\<close>

definition LootTable_Generate ::
  "('a, 's) env \<Rightarrow> LootTable \<Rightarrow> runtime \<Rightarrow> ('s list \<times> LootTable \<times> runtime) option" where
  "LootTable_Generate env t w = do {
     (stacks, ps, w') \<leftarrow> Generate_pools env (Pools t) [] w;
     Some (stacks, t\<lparr>Pools := ps\<rparr>, w')
   }"

section \<open>Parsing and loading\<close>

text \<open>
  The decoder of \<^verbatim>\<open>encoding/json\<close> and the embedded file system are parameters:
  \<^item> \<open>ReadFile\<close> is \<^verbatim>\<open>lootFS.ReadFile\<close>, an error (its text) or the bytes;
  \<^item> \<open>Unmarshal_int data\<close> is \<^verbatim>\<open>json.Unmarshal(data, &i)\<close> for an \<^verbatim>\<open>int\<close>:
    \<open>None\<close> for an error, otherwise the value of \<open>i\<close>;
  \<^item> \<open>Unmarshal_min_max data\<close> is the same for the struct with the fields \<open>min\<close> and
    \<open>max\<close>;
  \<^item> \<open>Unmarshal_table b\<close> is \<^verbatim>\<open>json.Unmarshal(b, &t)\<close> for a fresh table: what
    the decoder leaves in \<open>t\<close>, and its error.
\<close>

record loader =
  ReadFile :: "string \<Rightarrow> string + string"
  Unmarshal_int :: "string \<Rightarrow> goint option"
  Unmarshal_min_max :: "string \<Rightarrow> (goint \<times> goint) option"
  Unmarshal_table :: "string \<Rightarrow> LootTable \<times> string option"

text \<open>
  \<^verbatim>\<open>Value.UnmarshalJSON\<close>: the receiver as the call leaves it, and the error returned
  (always \<^verbatim>\<open>nil\<close>).
\<close>

definition UnmarshalJSON :: "loader \<Rightarrow> Value \<Rightarrow> string \<Rightarrow> Value \<times> string option" where
  "UnmarshalJSON ld v data =
     (case Unmarshal_int ld data of
        Some i \<Rightarrow> (v\<lparr>Min_val := i, Max_val := i\<rparr>, None)
      | None \<Rightarrow>
          (case Unmarshal_min_max ld data of
             Some (m_Min, m_Max) \<Rightarrow> (v\<lparr>Min_val := m_Min, Max_val := m_Max\<rparr>, None)
           | None \<Rightarrow> (v, None)))"

definition LoadTable :: "loader \<Rightarrow> string \<Rightarrow> LootTable \<times> string option" where
  "LoadTable ld path =
     (case ReadFile ld path of
        Inl err \<Rightarrow> (\<lparr>Pools = []\<rparr>, Some err)
      | Inr b \<Rightarrow> Unmarshal_table ld b)"

text \<open>The package-level \<^verbatim>\<open>Generate(path)\<close>.\<close>

definition Generate ::
  "('a, 's) env \<Rightarrow> loader \<Rightarrow> string \<Rightarrow> runtime \<Rightarrow> (('s list \<times> bool) \<times> runtime) option" where
  "Generate env ld path w =
     (case LoadTable ld path of
        (t, Some err) \<Rightarrow>
          Some (([], False),
                Printf (''[Loot System] Error loading table '' @ [CHR 0x27] @ path @ [CHR 0x27]
                          @ '': '' @ err @ [CHR 0x0A]) w)
      | (t, None) \<Rightarrow> do {
          (stacks, t', w') \<leftarrow> LootTable_Generate env t w;
          Some ((stacks, True), w')
        })"


section \<open>Auxiliary notions for the statements\<close>

text \<open>
  The entry the second loop of \<^verbatim>\<open>rollEntry\<close> stops at: the same recursion as
  \<open>rollEntry_pick\<close>, returning the entry instead of processing it.
\<close>

fun selected_entry :: "Entry list \<Rightarrow> goint \<Rightarrow> goint \<Rightarrow> Entry option" where
  "selected_entry [] r current = None"
| "selected_entry (e # es) r current =
     (let current = current + Weight e in
      if r <s current then Some e else selected_entry es r current)"

text \<open>
  A value range whose number of values \<open>Max - Min + 1\<close> is representable as a Go
  \<^verbatim>\<open>int\<close> (every range with \<open>Max \<le> Min\<close> is), and the functions all of whose
  declared ranges are such.
\<close>

definition span_ok :: "Value \<Rightarrow> bool" where
  "span_ok v = (sint (Max_val v) - sint (Min_val v) < 2 ^ 63 - 1)"

definition ranges_ok :: "Function \<Rightarrow> bool" where
  "ranges_ok f =
     (span_ok (Count f) \<and> span_ok (Levels f) \<and> list_all (\<lambda>spec. span_ok (Level spec)) (Enchants f))"

definition is_set_count :: "Function \<Rightarrow> bool" where
  "is_set_count f = (Function f = ''set_count'')"

definition set_counts_first :: "Function list \<Rightarrow> Function list" where
  "set_counts_first fs = filter is_set_count fs @ filter (\<lambda>f. \<not> is_set_count f) fs"

text \<open>
  The function pipeline as the specification words it (section 4.3): the functions are
  applied strictly in declared order, each to the stack produced by the previous one, and
  \<^verbatim>\<open>set_count\<close> replaces the quantity of the stack it receives by a roll of its range.
  \<open>setCount\<close> is the operation that replaces the quantity of a stack; the other functions
  are the cases of the \<^verbatim>\<open>switch\<close>.
\<close>

fun pipeline_spec ::
  "('a, 's) env \<Rightarrow> ('s \<Rightarrow> goint \<Rightarrow> 's) \<Rightarrow> Function list \<Rightarrow> 's \<Rightarrow> runtime \<Rightarrow> ('s \<times> runtime) option" where
  "pipeline_spec env setCount [] s w = Some (s, w)"
| "pipeline_spec env setCount (f # fs) s w = do {
     (s', w') \<leftarrow>
       (if Function f = ''set_count'' then do {
          (c, w') \<leftarrow> RollValue (Count f) w;
          Some (setCount s c, w')
        }
        else rollEntry_switch env f s w);
     pipeline_spec env setCount fs s' w'
   }"

definition add_prefix :: "Entry \<Rightarrow> Entry" where
  "add_prefix e = e\<lparr>Name := ''minecraft:'' @ Name e\<rparr>"

section \<open>A small catalogue for concrete runs\<close>

text \<open>
  A minimal instance of the collaborators, on which the definitions are run at concrete
  inputs: three items, a sword that takes five enchantments, stacks as triples of item,
  quantity and attached enchantments, and lower-casing of ASCII letters.
\<close>

type_synonym demo_stack = "string item \<times> goint \<times> (enchantment \<times> goint) list"

definition ascii_lower :: "char \<Rightarrow> char" where
  "ascii_lower c =
     (case map_of (zip ''ABCDEFGHIJKLMNOPQRSTUVWXYZ'' ''abcdefghijklmnopqrstuvwxyz'') c of
        Some l \<Rightarrow> l
      | None \<Rightarrow> c)"

definition demo_env :: "(string, demo_stack) env" where
  "demo_env =
     \<lparr>ItemByName = (\<lambda>name meta.
         if name = ''minecraft:stick'' then Some (OtherItem ''stick'')
         else if name = ''minecraft:diamond_sword'' then Some (OtherItem ''diamond_sword'')
         else if name = ''minecraft:potion'' then Some (Potion Water)
         else None),
      CompatibleWithItem = (\<lambda>enc it.
         it = OtherItem ''diamond_sword''
         \<and> enc \<in> set [Sharpness, Knockback, FireAspect, Unbreaking, Mending]),
      MaxLevel = (\<lambda>enc.
         if enc = Sharpness then 5 else if enc = Unbreaking then 3
         else if enc = Knockback \<or> enc = FireAspect then 2 else 1),
      EmptyStack = (OtherItem [], 0, []),
      NewStack = (\<lambda>it count. (it, count, [])),
      WithEnchantments = (\<lambda>(it, count, encs) e. (it, count, encs @ [e])),
      StackItem = (\<lambda>(it, count, encs). it),
      StackCount = (\<lambda>(it, count, encs). count),
      ToLower = map ascii_lower\<rparr>"

definition demo_setCount :: "demo_stack \<Rightarrow> goint \<Rightarrow> demo_stack" where
  "demo_setCount = (\<lambda>(it, count, encs) c. (it, c, encs))"

text \<open>
  A loader with one embedded file, whose top-level structure is malformed (\<open>pools\<close> is a
  string), and a decoder that knows two encodings of a range.
\<close>

definition demo_loader :: loader where
  \<open>demo_loader =
     \<lparr>ReadFile = (\<lambda>path.
         if path = ''chests/bad.json'' then Inr ''{"pools":"x"}''
         else Inl ''file does not exist''),
      Unmarshal_int = (\<lambda>data. if data = ''5'' then Some 5 else None),
      Unmarshal_min_max = (\<lambda>data. if data = ''{"min":1,"max":3}'' then Some (1, 3) else None),
      Unmarshal_table = (\<lambda>b.
         (\<lparr>Pools = []\<rparr>, Some ''json: cannot unmarshal string into Go struct field''))\<rparr>\<close>

text \<open>The runtime whose generator yields the given raw draws (and 0 after them).\<close>

definition runtime_of :: "nat list \<Rightarrow> runtime" where
  "runtime_of ds = \<lparr>draws = (\<lambda>i. if i < length ds then ds ! i else 0), pos = 0, printed = []\<rparr>"

definition item_entry :: "string \<Rightarrow> goint \<Rightarrow> Function list \<Rightarrow> Entry" where
  "item_entry name weight fs = \<lparr>Type = ''item'', Name = name, Weight = weight, Functions = fs\<rparr>"

definition fixed :: "goint \<Rightarrow> Value" where
  "fixed n = \<lparr>Min_val = n, Max_val = n\<rparr>"

definition function_named :: "string \<Rightarrow> Function" where
  "function_named name =
     \<lparr>Function = name, Count = fixed 0, Levels = fixed 0, ID = [], Enchants = []\<rparr>"


section \<open>Signed 64-bit arithmetic\<close>

lemma sint_word_of_int_small:
  "- (2 ^ 63) \<le> k \<Longrightarrow> k < 2 ^ 63 \<Longrightarrow> sint (word_of_int k :: goint) = k"
  by (simp only: sint_sbintrunc') (simp add: signed_take_bit_int_eq_self)

lemma sint_span_stb:
  fixes a b :: goint
  shows "sint (b - a + 1) = signed_take_bit 63 (sint b - sint a + 1)"
proof -
  have "sint (word_of_int (sint b - sint a + 1) :: goint)
          = signed_take_bit 63 (sint b - sint a + 1)"
    by (simp only: sint_sbintrunc') simp
  then show ?thesis by simp
qed

lemma sint_span:
  fixes a b :: goint
  assumes "sint a < sint b" "0 < sint (b - a + 1)"
  shows "sint (b - a + 1) = sint b - sint a + 1"
proof (cases "sint b - sint a + 1 < 2 ^ 63")
  case True
  with assms(1) show ?thesis
    by (simp add: sint_span_stb signed_take_bit_int_eq_self)
next
  case False
  then have "2 ^ 63 \<le> sint b - sint a + 1" by simp
  from signed_take_bit_int_less_eq [OF this]
  have "signed_take_bit 63 (sint b - sint a + 1) \<le> 0"
    using sint_lt [of b] sint_ge [of a] by simp
  with assms(2) show ?thesis by (simp add: sint_span_stb)
qed

lemma sint_span_total:
  fixes a b :: goint
  assumes "sint a < sint b" "sint b - sint a < 2 ^ 63 - 1"
  shows "0 < sint (b - a + 1)"
  using assms by (simp add: sint_span_stb signed_take_bit_int_eq_self)

lemma sint_add_in_range:
  fixes r a :: goint
  assumes "- (2 ^ 63) \<le> sint r + sint a" "sint r + sint a < 2 ^ 63"
  shows "sint (r + a) = sint r + sint a"
  using assms by (simp add: sint_word_add signed_take_bit_int_eq_self)

section \<open>The random source\<close>

lemma Intn_Some:
  "0 <s n \<Longrightarrow>
   Intn n w = Some (word_of_int (int (draws w (pos w)) mod sint n), w\<lparr>pos := Suc (pos w)\<rparr>)"
  by (simp add: Intn_def word_sle_eq word_sless_alt)

lemma Intn_bounds:
  assumes "Intn n w = Some (r, w')"
  shows "0 \<le> sint r \<and> sint r < sint n \<and> w' = w\<lparr>pos := Suc (pos w)\<rparr>"
proof -
  from assms have n: "0 < sint n"
    and r: "r = word_of_int (int (draws w (pos w)) mod sint n)"
    and w': "w' = w\<lparr>pos := Suc (pos w)\<rparr>"
    by (auto simp: Intn_def word_sle_eq split: if_splits)
  have m: "0 \<le> int (draws w (pos w)) mod sint n" "int (draws w (pos w)) mod sint n < sint n"
    using n by simp_all
  moreover have "sint n < 2 ^ 63"
    using sint_lt [of n] by simp
  ultimately have "sint r = int (draws w (pos w)) mod sint n"
    unfolding r by (intro sint_word_of_int_small) linarith+
  with m w' show ?thesis by simp
qed

section \<open>Rolling a value range: the result\<close>

lemma RollValue_fixed:
  "Max_val v \<le>s Min_val v \<Longrightarrow> RollValue v w = Some (Min_val v, w)"
  by (simp add: RollValue_def)

lemma RollValue_bounds:
  assumes lt: "Min_val v <s Max_val v" and ret: "RollValue v w = Some (x, w')"
  shows "Min_val v \<le>s x \<and> x \<le>s Max_val v \<and> w' = w\<lparr>pos := Suc (pos w)\<rparr>"
proof -
  from lt have lt': "sint (Min_val v) < sint (Max_val v)" by (simp add: word_sless_alt)
  from ret lt' obtain r where I: "Intn (Max_val v - Min_val v + 1) w = Some (r, w')"
    and x: "x = r + Min_val v"
    by (auto simp: RollValue_def word_sle_eq split: if_splits Option.bind_splits)
  from Intn_bounds [OF I] have r: "0 \<le> sint r" "sint r < sint (Max_val v - Min_val v + 1)"
    and w': "w' = w\<lparr>pos := Suc (pos w)\<rparr>" by simp_all
  from r have "0 < sint (Max_val v - Min_val v + 1)" by simp
  from sint_span [OF lt' this] r have le: "sint r \<le> sint (Max_val v) - sint (Min_val v)" by simp
  have "sint x = sint r + sint (Min_val v)"
    unfolding x using r(1) le sint_lt [of "Max_val v"] sint_ge [of "Min_val v"]
    by (intro sint_add_in_range) simp_all
  with r(1) le w' show ?thesis
    by (simp add: word_sle_eq)
qed

lemma RollValue_returns:
  assumes "span_ok v"
  shows "\<exists>x w'. RollValue v w = Some (x, w')"
proof (cases "Max_val v \<le>s Min_val v")
  case True
  then show ?thesis by (simp add: RollValue_def)
next
  case False
  then have lt: "sint (Min_val v) < sint (Max_val v)" by (simp add: word_sle_eq)
  from assms have "sint (Max_val v) - sint (Min_val v) < 2 ^ 63 - 1"
    by (simp add: span_ok_def)
  from sint_span_total [OF lt this] lt show ?thesis
    by (simp add: RollValue_def Intn_def word_sle_eq)
qed

lemma RollValue_state:
  assumes "RollValue v w = Some (x, w')"
  shows "draws w' = draws w \<and> printed w' = printed w \<and> pos w \<le> pos w'"
proof (cases "Max_val v \<le>s Min_val v")
  case True
  with assms show ?thesis by (simp add: RollValue_def)
next
  case False
  then have "Min_val v <s Max_val v" by (simp add: word_sle_eq word_sless_alt)
  from RollValue_bounds [OF this assms] show ?thesis by simp
qed

text \<open>
  Claim C4. For a range with \<open>Max \<le> Min\<close>, \<^verbatim>\<open>RollValue\<close> returns exactly \<open>Min\<close> and
  leaves the random source as it was (no draw is consumed), whatever its state. For a
  range with \<open>Max > Min\<close>, every value it returns lies in \<open>[Min, Max]\<close>, and one draw
  has been consumed. It does return whenever the number of values \<open>Max - Min + 1\<close> is
  representable (otherwise the argument of \<^verbatim>\<open>rand.Intn\<close> wraps to a non-positive
  number and the call panics, returning nothing).
\<close>

theorem RollValue_range:
  "(Max_val v \<le>s Min_val v \<longrightarrow> RollValue v w = Some (Min_val v, w)) \<and>
   (Min_val v <s Max_val v \<longrightarrow>
      (\<forall>x w'. RollValue v w = Some (x, w') \<longrightarrow>
         Min_val v \<le>s x \<and> x \<le>s Max_val v \<and> w' = w\<lparr>pos := Suc (pos w)\<rparr>) \<and>
      (span_ok v \<longrightarrow> (\<exists>x w'. RollValue v w = Some (x, w'))))"
  using RollValue_fixed RollValue_bounds RollValue_returns by blast

theorem RollValue_range_witness:
  "RollValue \<lparr>Min_val = 3, Max_val = 3\<rparr> (runtime_of [7]) = Some (3, runtime_of [7]) \<and>
   RollValue \<lparr>Min_val = 5, Max_val = 2\<rparr> (runtime_of [7]) = Some (5, runtime_of [7]) \<and>
   (\<exists>x w'. RollValue \<lparr>Min_val = 2, Max_val = 5\<rparr> (runtime_of [7]) = Some (x, w') \<and>
      2 \<le>s x \<and> x \<le>s 5 \<and> pos w' = 1)"
proof -
  have a: "Max_val \<lparr>Min_val = 3, Max_val = 3\<rparr> \<le>s Min_val \<lparr>Min_val = 3, Max_val = 3 :: goint\<rparr>"
    and b: "Max_val \<lparr>Min_val = 5, Max_val = 2\<rparr> \<le>s Min_val \<lparr>Min_val = 5, Max_val = 2 :: goint\<rparr>"
    and c: "Min_val \<lparr>Min_val = 2, Max_val = 5\<rparr> <s Max_val \<lparr>Min_val = 2, Max_val = 5 :: goint\<rparr>"
    and d: "span_ok \<lparr>Min_val = 2, Max_val = 5\<rparr>"
    by (simp_all add: word_sle_eq word_sless_alt span_ok_def)
  from RollValue_range [of "\<lparr>Min_val = 2, Max_val = 5\<rparr>" "runtime_of [7]"] c d
  obtain x w' where r: "RollValue \<lparr>Min_val = 2, Max_val = 5\<rparr> (runtime_of [7]) = Some (x, w')"
    by blast
  with RollValue_range [of "\<lparr>Min_val = 2, Max_val = 5\<rparr>" "runtime_of [7]"] c
  have "2 \<le>s x \<and> x \<le>s 5 \<and> pos w' = 1"
    by (simp add: runtime_of_def)
  with r RollValue_range [of "\<lparr>Min_val = 3, Max_val = 3\<rparr>" "runtime_of [7]"] a
       RollValue_range [of "\<lparr>Min_val = 5, Max_val = 2\<rparr>" "runtime_of [7]"] b
  show ?thesis by auto
qed


section \<open>Weighted selection: weights\<close>

lemma rollEntry_weights_slice': "rollEntry_weights es tw = (es', t) \<Longrightarrow> es' = es"
  by (induction es arbitrary: tw es' t) (auto simp: Let_def split: prod.splits if_splits)

lemma rollEntry_weights_slice: "fst (rollEntry_weights es tw) = es"
  using rollEntry_weights_slice' [of es tw] by (cases "rollEntry_weights es tw") simp

lemma rollEntry_pick_zero_weights:
  assumes "\<forall>e \<in> set es. Weight e = 0" "0 \<le> sint r"
  shows "rollEntry_pick env es r 0 w = Some ((EmptyStack env, False), w)"
  using assms by (induction es) (simp_all add: word_sless_alt)

lemma rollEntry_zero_weights:
  assumes "\<forall>e \<in> set (Entries p). Weight e = 0"
  shows "\<exists>w'. rollEntry env p w = Some ((EmptyStack env, False), p, w')"
proof -
  obtain es tw where wl: "rollEntry_weights (Entries p) 0 = (es, tw)"
    by (cases "rollEntry_weights (Entries p) 0")
  with rollEntry_weights_slice [of "Entries p" 0] have es: "es = Entries p" by simp
  show ?thesis
  proof (cases "tw \<le>s 0")
    case True
    with wl es show ?thesis by (simp add: rollEntry_def)
  next
    case False
    then have "0 <s tw" by (simp add: word_sle_eq word_sless_alt)
    from Intn_Some [OF this, of w] obtain r w1 where I: "Intn tw w = Some (r, w1)" by blast
    from Intn_bounds [OF I] have "0 \<le> sint r" by simp
    from rollEntry_pick_zero_weights [OF assms this, of env w1] wl es False I
    show ?thesis by (simp add: rollEntry_def)
  qed
qed

text \<open>
  Claim C1 says that a weight of 0 counts as 1 at selection time, so that a pool with a
  single entry of weight 0 behaves exactly like one with a single entry of weight 1. The
  code normalises the weight of the loop copy in the first loop only: the total counts the
  entry as 1, the second loop adds the weight 0 still in the slice to the running sum, and
  the draw \<open>r = 0\<close> is never below it. Evaluated on the same pool with the weights 0 and
  1, for any state \<open>w\<close> of the random source: no stack with weight 0, the stick with
  weight 1.
\<close>

theorem rollEntry_weight_zero_entry:
  "rollEntry demo_env \<lparr>Rolls = fixed 1, Entries = [item_entry ''stick'' 0 []]\<rparr> w =
     Some ((EmptyStack demo_env, False),
           \<lparr>Rolls = fixed 1, Entries = [item_entry ''stick'' 0 []]\<rparr>, w\<lparr>pos := Suc (pos w)\<rparr>) \<and>
   rollEntry demo_env \<lparr>Rolls = fixed 1, Entries = [item_entry ''stick'' 1 []]\<rparr> w =
     Some (((OtherItem ''stick'', 1, []), True),
           \<lparr>Rolls = fixed 1, Entries = [item_entry ''stick'' 1 []]\<rparr>, w\<lparr>pos := Suc (pos w)\<rparr>)"
  by (simp add: rollEntry_def item_entry_def Intn_def word_sle_eq word_sless_alt
      rollEntry_selected_def TrimPrefix_def demo_env_def)

section \<open>Enchanting with levels\<close>

lemma applyEnchantWithLevels_loop_nonpos:
  "levels \<le>s 0 \<Longrightarrow> applyEnchantWithLevels_loop env encs s levels w = Some (s, w)"
  by (induction encs) (simp_all add: word_sle_eq word_sless_alt)

lemma applyEnchantWithLevels_loop_find:
  assumes "0 <s levels"
  shows "applyEnchantWithLevels_loop env encs s levels w =
     (case find (\<lambda>enc. CompatibleWithItem env enc (StackItem env s)) encs of
        None \<Rightarrow> Some (s, w)
      | Some enc \<Rightarrow>
          if 15 <s levels \<and> 1 <s MaxLevel env enc
          then Some (WithEnchantments env s
                 (enc, word_of_int (int (draws w (pos w)) mod sint (MaxLevel env enc)) + 1),
                 w\<lparr>pos := Suc (pos w)\<rparr>)
          else Some (WithEnchantments env s (enc, 1), w))"
  using assms
proof (induction encs)
  case Nil
  then show ?case by simp
next
  case (Cons enc encs)
  show ?case
  proof (cases "CompatibleWithItem env enc (StackItem env s)")
    case False
    with Cons show ?thesis by simp
  next
    case True
    show ?thesis
    proof (cases "15 <s levels \<and> 1 <s MaxLevel env enc")
      case False
      with True Cons.prems show ?thesis by (auto simp: Let_def)
    next
      case b: True
      then have "0 <s MaxLevel env enc" by (simp add: word_sless_alt)
      from Intn_Some [OF this, of w] True b Cons.prems show ?thesis by (simp add: Let_def)
    qed
  qed
qed

lemma drawn_level_bounds:
  fixes m :: goint
  assumes "1 <s m"
  shows "sint (word_of_int (int d mod sint m) + 1 :: goint) = int d mod sint m + 1"
    and "1 \<le>s (word_of_int (int d mod sint m) + 1 :: goint)"
    and "(word_of_int (int d mod sint m) + 1 :: goint) \<le>s m"
proof -
  from assms have m: "1 < sint m" by (simp add: word_sless_alt)
  have b: "0 \<le> int d mod sint m" "int d mod sint m < sint m"
    using m by simp_all
  have top: "sint m < 2 ^ 63" using sint_lt [of m] by simp
  have r: "sint (word_of_int (int d mod sint m) :: goint) = int d mod sint m"
    using b top by (intro sint_word_of_int_small) linarith+
  show s: "sint (word_of_int (int d mod sint m) + 1 :: goint) = int d mod sint m + 1"
    using b top r by (subst sint_add_in_range) simp_all
  from s b show "1 \<le>s (word_of_int (int d mod sint m) + 1 :: goint)"
    and "(word_of_int (int d mod sint m) + 1 :: goint) \<le>s m"
    by (simp_all add: word_sle_eq)
qed

text \<open>
  Claim C3, amended. \<^verbatim>\<open>applyEnchantWithLevels\<close> returns the stack unchanged, and
  draws nothing, when no catalogue enchantment is compatible with the stack's item or
  when \<open>levels \<le> 0\<close>. Otherwise it attaches the first compatible enchantment in
  catalogue order: at level 1, drawing nothing, when \<open>levels \<le> 15\<close> or the maximal
  level of that enchantment is at most 1; at the level \<open>draw mod maxLevel + 1\<close>, which
  lies in \<open>[1, maxLevel]\<close>, consuming one draw, when \<open>levels > 15\<close> and the maximal
  level exceeds 1.
\<close>

theorem applyEnchantWithLevels_first_compatible:
  "(find (\<lambda>enc. CompatibleWithItem env enc (StackItem env s)) getAllEnchantments = None
      \<or> levels \<le>s 0 \<longrightarrow>
      applyEnchantWithLevels env s levels w = Some (s, w)) \<and>
   (\<forall>enc. find (\<lambda>enc. CompatibleWithItem env enc (StackItem env s)) getAllEnchantments = Some enc
        \<and> 0 <s levels \<and> (levels \<le>s 15 \<or> MaxLevel env enc \<le>s 1) \<longrightarrow>
      applyEnchantWithLevels env s levels w = Some (WithEnchantments env s (enc, 1), w)) \<and>
   (\<forall>enc. find (\<lambda>enc. CompatibleWithItem env enc (StackItem env s)) getAllEnchantments = Some enc
        \<and> 15 <s levels \<and> 1 <s MaxLevel env enc \<longrightarrow>
      (\<exists>lvl. 1 \<le>s lvl \<and> lvl \<le>s MaxLevel env enc
         \<and> sint lvl = int (draws w (pos w)) mod sint (MaxLevel env enc) + 1
         \<and> applyEnchantWithLevels env s levels w =
             Some (WithEnchantments env s (enc, lvl), w\<lparr>pos := Suc (pos w)\<rparr>)))"
proof (intro conjI allI impI)
  assume "find (\<lambda>enc. CompatibleWithItem env enc (StackItem env s)) getAllEnchantments = None
      \<or> levels \<le>s 0"
  then show "applyEnchantWithLevels env s levels w = Some (s, w)"
  proof
    assume "levels \<le>s 0"
    then show ?thesis
      by (simp add: applyEnchantWithLevels_def applyEnchantWithLevels_loop_nonpos)
  next
    assume n: "find (\<lambda>enc. CompatibleWithItem env enc (StackItem env s)) getAllEnchantments = None"
    show ?thesis
    proof (cases "levels \<le>s 0")
      case True
      then show ?thesis
        by (simp add: applyEnchantWithLevels_def applyEnchantWithLevels_loop_nonpos)
    next
      case False
      then have "0 <s levels" by (simp add: word_sle_eq word_sless_alt)
      from applyEnchantWithLevels_loop_find [OF this, of env getAllEnchantments s w] n show ?thesis
        by (simp add: applyEnchantWithLevels_def)
    qed
  qed
next
  fix enc
  assume a: "find (\<lambda>enc. CompatibleWithItem env enc (StackItem env s)) getAllEnchantments = Some enc
        \<and> 0 <s levels \<and> (levels \<le>s 15 \<or> MaxLevel env enc \<le>s 1)"
  then have "0 <s levels" by simp
  from applyEnchantWithLevels_loop_find [OF this, of env getAllEnchantments s w] a
  show "applyEnchantWithLevels env s levels w = Some (WithEnchantments env s (enc, 1), w)"
    by (auto simp: applyEnchantWithLevels_def word_sle_eq word_sless_alt)
next
  fix enc
  assume a: "find (\<lambda>enc. CompatibleWithItem env enc (StackItem env s)) getAllEnchantments = Some enc
        \<and> 15 <s levels \<and> 1 <s MaxLevel env enc"
  then have "0 <s levels" by (simp add: word_sless_alt)
  from applyEnchantWithLevels_loop_find [OF this, of env getAllEnchantments s w] a
  have "applyEnchantWithLevels env s levels w =
      Some (WithEnchantments env s
             (enc, word_of_int (int (draws w (pos w)) mod sint (MaxLevel env enc)) + 1),
            w\<lparr>pos := Suc (pos w)\<rparr>)"
    by (simp add: applyEnchantWithLevels_def)
  with drawn_level_bounds [of "MaxLevel env enc" "draws w (pos w)"] a
  show "\<exists>lvl. 1 \<le>s lvl \<and> lvl \<le>s MaxLevel env enc
         \<and> sint lvl = int (draws w (pos w)) mod sint (MaxLevel env enc) + 1
         \<and> applyEnchantWithLevels env s levels w =
             Some (WithEnchantments env s (enc, lvl), w\<lparr>pos := Suc (pos w)\<rparr>)"
    by blast
qed

lemma demo_first_compatible:
  "find (\<lambda>enc. CompatibleWithItem demo_env enc (StackItem demo_env (OtherItem ''diamond_sword'', c, es)))
     getAllEnchantments = Some Sharpness"
  by (simp add: demo_env_def getAllEnchantments_def)

text \<open>
  Claim C3 as stated, with the level fixed at 1 also for \<open>levels \<le> 0\<close>, fails at
  \<open>levels = 0\<close>: the sword's first compatible enchantment is Sharpness, and the stack
  comes back without it.
\<close>

theorem applyEnchantWithLevels_levels_zero_counterexample:
  "find (\<lambda>enc. CompatibleWithItem demo_env enc
            (StackItem demo_env (OtherItem ''diamond_sword'', 1, []))) getAllEnchantments
     = Some Sharpness \<and>
   applyEnchantWithLevels demo_env (OtherItem ''diamond_sword'', 1, []) 0 (runtime_of [])
     = Some ((OtherItem ''diamond_sword'', 1, []), runtime_of []) \<and>
   WithEnchantments demo_env (OtherItem ''diamond_sword'', 1, []) (Sharpness, 1)
     \<noteq> (OtherItem ''diamond_sword'', 1, [])"
  by (simp add: demo_first_compatible applyEnchantWithLevels_def
      applyEnchantWithLevels_loop_nonpos word_sle_eq)
     (simp add: demo_env_def)

theorem applyEnchantWithLevels_first_compatible_witness:
  "applyEnchantWithLevels demo_env (OtherItem ''stick'', 1, []) 20 (runtime_of [8])
     = Some ((OtherItem ''stick'', 1, []), runtime_of [8]) \<and>
   applyEnchantWithLevels demo_env (OtherItem ''diamond_sword'', 1, []) 0 (runtime_of [8])
     = Some ((OtherItem ''diamond_sword'', 1, []), runtime_of [8]) \<and>
   applyEnchantWithLevels demo_env (OtherItem ''diamond_sword'', 1, []) 15 (runtime_of [8])
     = Some ((OtherItem ''diamond_sword'', 1, [(Sharpness, 1)]), runtime_of [8]) \<and>
   (\<exists>lvl. 1 \<le>s lvl \<and> lvl \<le>s 5 \<and> sint lvl = 4 \<and>
      applyEnchantWithLevels demo_env (OtherItem ''diamond_sword'', 1, []) 20 (runtime_of [8])
        = Some ((OtherItem ''diamond_sword'', 1, [(Sharpness, lvl)]), (runtime_of [8])\<lparr>pos := 1\<rparr>))"
proof -
  have none: "find (\<lambda>enc. CompatibleWithItem demo_env enc
            (StackItem demo_env (OtherItem ''stick'', 1, []))) getAllEnchantments = None"
    by (simp add: demo_env_def getAllEnchantments_def)
  have m: "MaxLevel demo_env Sharpness = 5"
    and we: "\<And>l. WithEnchantments demo_env (OtherItem ''diamond_sword'', 1, []) (Sharpness, l)
               = (OtherItem ''diamond_sword'', 1, [(Sharpness, l)])"
    by (simp_all add: demo_env_def)
  have d: "draws (runtime_of [8]) (pos (runtime_of [8])) = 8" "pos (runtime_of [8]) = 0"
    by (simp_all add: runtime_of_def)
  from applyEnchantWithLevels_first_compatible
         [of demo_env "(OtherItem ''stick'', 1, [])" 20 "runtime_of [8]"] none
  have 1: "applyEnchantWithLevels demo_env (OtherItem ''stick'', 1, []) 20 (runtime_of [8])
     = Some ((OtherItem ''stick'', 1, []), runtime_of [8])"
    by blast
  from applyEnchantWithLevels_first_compatible
         [of demo_env "(OtherItem ''diamond_sword'', 1, [])" 0 "runtime_of [8]"]
  have 2: "applyEnchantWithLevels demo_env (OtherItem ''diamond_sword'', 1, []) 0 (runtime_of [8])
     = Some ((OtherItem ''diamond_sword'', 1, []), runtime_of [8])"
    by (simp add: word_sle_eq)
  from applyEnchantWithLevels_first_compatible
         [of demo_env "(OtherItem ''diamond_sword'', 1, [])" 15 "runtime_of [8]"]
       demo_first_compatible [of 1 "[]"]
  have 3: "applyEnchantWithLevels demo_env (OtherItem ''diamond_sword'', 1, []) 15 (runtime_of [8])
     = Some ((OtherItem ''diamond_sword'', 1, [(Sharpness, 1)]), runtime_of [8])"
    by (simp add: word_sle_eq word_sless_alt we)
  from applyEnchantWithLevels_first_compatible
         [of demo_env "(OtherItem ''diamond_sword'', 1, [])" 20 "runtime_of [8]"]
       demo_first_compatible [of 1 "[]"]
  have 4: "\<exists>lvl. 1 \<le>s lvl \<and> lvl \<le>s 5 \<and> sint lvl = 4 \<and>
      applyEnchantWithLevels demo_env (OtherItem ''diamond_sword'', 1, []) 20 (runtime_of [8])
        = Some ((OtherItem ''diamond_sword'', 1, [(Sharpness, lvl)]), (runtime_of [8])\<lparr>pos := 1\<rparr>)"
    by (simp add: word_sle_eq word_sless_alt we m runtime_of_def)
  from 1 2 3 4 show ?thesis by blast
qed



section \<open>Names and the namespace prefix\<close>

lemma TrimPrefix_append: "TrimPrefix (p @ n) p = n"
  by (simp add: TrimPrefix_def)

lemma TrimPrefix_no_prefix: "\<not> prefix p n \<Longrightarrow> TrimPrefix n p = n"
  by (simp add: TrimPrefix_def)

lemma enchantmentByName_prefixed:
  "enchantmentByName env (''minecraft:'' @ n) = map_of enchantment_names (ToLower env n)"
  by (simp add: enchantmentByName_def TrimPrefix_def)

lemma enchantmentByName_bare:
  "\<not> prefix ''minecraft:'' n \<Longrightarrow>
   enchantmentByName env n = map_of enchantment_names (ToLower env n)"
  by (simp add: enchantmentByName_def TrimPrefix_def)

lemma potionByName_prefixed:
  "potionByName env (''minecraft:'' @ n) = map_of potion_names (ToLower env n)"
  by (simp add: potionByName_def TrimPrefix_def)

lemma potionByName_bare:
  "\<not> prefix ''minecraft:'' n \<Longrightarrow>
   potionByName env n = map_of potion_names (ToLower env n)"
  by (simp add: potionByName_def TrimPrefix_def)

lemma rollEntry_selected_add_prefix:
  assumes "\<not> prefix ''minecraft:'' (Name e)"
  shows "rollEntry_selected env (add_prefix e) w = rollEntry_selected env e w"
proof -
  have "TrimPrefix (Name (add_prefix e)) ''minecraft:'' = TrimPrefix (Name e) ''minecraft:''"
    using assms TrimPrefix_append [of "''minecraft:''" "Name e"]
      TrimPrefix_no_prefix [of "''minecraft:''" "Name e"]
    by (simp add: add_prefix_def)
  then show ?thesis
    by (simp add: rollEntry_selected_def add_prefix_def Let_def split: option.splits)
qed

lemma rollEntry_weights_add_prefix:
  "rollEntry_weights (map add_prefix es) tw
     = (map add_prefix es, snd (rollEntry_weights es tw))"
  by (induction es arbitrary: tw) (simp_all add: Let_def add_prefix_def split: prod.splits)

lemma rollEntry_pick_add_prefix:
  assumes "\<forall>e \<in> set es. \<not> prefix ''minecraft:'' (Name e)"
  shows "rollEntry_pick env (map add_prefix es) r current w = rollEntry_pick env es r current w"
  using assms
proof (induction es arbitrary: current)
  case Nil
  then show ?case by simp
next
  case (Cons e es)
  then have "rollEntry_selected env (add_prefix e) w = rollEntry_selected env e w"
    by (simp add: rollEntry_selected_add_prefix)
  moreover have "Weight (add_prefix e) = Weight e" by (simp add: add_prefix_def)
  ultimately show ?case using Cons by (simp add: Let_def)
qed

lemma rollEntry_add_prefix:
  assumes "\<forall>e \<in> set (Entries p). \<not> prefix ''minecraft:'' (Name e)"
  shows "map_option (\<lambda>(res, p', w'). (res, w'))
           (rollEntry env (p\<lparr>Entries := map add_prefix (Entries p)\<rparr>) w)
       = map_option (\<lambda>(res, p', w'). (res, w')) (rollEntry env p w)"
proof -
  obtain es tw where wl: "rollEntry_weights (Entries p) 0 = (es, tw)"
    by (cases "rollEntry_weights (Entries p) 0")
  have es: "es = Entries p"
    using wl by (rule rollEntry_weights_slice')
  show ?thesis
    using wl es rollEntry_pick_add_prefix [OF assms, of env]
    by (simp add: rollEntry_def rollEntry_weights_add_prefix
        split: Option.bind_splits prod.splits)
qed


lemma names_invariance:
  assumes "\<not> prefix ''minecraft:'' n" "\<not> prefix ''minecraft:'' n'"
    and "ToLower env n' = ToLower env n"
  shows "enchantmentByName env (''minecraft:'' @ n) = enchantmentByName env n \<and>
      enchantmentByName env n' = enchantmentByName env n \<and>
      enchantmentByName env (''minecraft:'' @ n') = enchantmentByName env n \<and>
      potionByName env (''minecraft:'' @ n) = potionByName env n \<and>
      potionByName env n' = potionByName env n \<and>
      potionByName env (''minecraft:'' @ n') = potionByName env n"
  unfolding enchantmentByName_prefixed potionByName_prefixed
    enchantmentByName_bare [OF assms(1)] enchantmentByName_bare [OF assms(2)]
    potionByName_bare [OF assms(1)] potionByName_bare [OF assms(2)] assms(3)
  by simp

text \<open>
  Claim C10, amended. For a name that does not itself begin with \<^verbatim>\<open>minecraft:\<close>, an
  entry resolves to the same item, and \<^verbatim>\<open>rollEntry\<close> returns the same stack and flag
  and leaves the same runtime state, whether or not the prefix is put in front of the name.
  \<^verbatim>\<open>enchantmentByName\<close> and \<^verbatim>\<open>potionByName\<close> return the same result for such a
  name \<open>n\<close>, for \<open>n\<close> with the prefix, and for every case variation \<open>n'\<close> of \<open>n\<close> (a
  name with the same lower-casing) that does not begin with the prefix, with or without
  the prefix in front: the part after the prefix is matched case-insensitively, the prefix
  itself exactly.
\<close>

theorem prefix_invariance:
  "(\<not> prefix ''minecraft:'' (Name e) \<longrightarrow>
      rollEntry_selected env (add_prefix e) w = rollEntry_selected env e w) \<and>
   ((\<forall>e \<in> set (Entries p). \<not> prefix ''minecraft:'' (Name e)) \<longrightarrow>
      map_option (\<lambda>(res, p', w'). (res, w'))
        (rollEntry env (p\<lparr>Entries := map add_prefix (Entries p)\<rparr>) w)
      = map_option (\<lambda>(res, p', w'). (res, w')) (rollEntry env p w)) \<and>
   (\<not> prefix ''minecraft:'' n \<and> \<not> prefix ''minecraft:'' n' \<and> ToLower env n' = ToLower env n \<longrightarrow>
      enchantmentByName env (''minecraft:'' @ n) = enchantmentByName env n \<and>
      enchantmentByName env n' = enchantmentByName env n \<and>
      enchantmentByName env (''minecraft:'' @ n') = enchantmentByName env n \<and>
      potionByName env (''minecraft:'' @ n) = potionByName env n \<and>
      potionByName env n' = potionByName env n \<and>
      potionByName env (''minecraft:'' @ n') = potionByName env n)"
  using rollEntry_selected_add_prefix [of e env w] rollEntry_add_prefix [of p env w]
    names_invariance [of n n' env]
  by blast

text \<open>
  Claim C10 as stated, for every name and any case variation, fails: the prefix is
  trimmed before the name is lower-cased, so a prefix in another case stays in the name
  and the lookup fails; and for a name that already carries the prefix, adding it once
  more leaves one prefix after trimming, which the registry does not know.
\<close>

theorem prefix_case_counterexample:
  "map ascii_lower ''Minecraft:sharpness'' = map ascii_lower ''minecraft:sharpness'' \<and>
   enchantmentByName demo_env ''minecraft:sharpness'' = Some Sharpness \<and>
   enchantmentByName demo_env ''Minecraft:sharpness'' = None \<and>
   potionByName demo_env ''minecraft:healing'' = Some Healing \<and>
   potionByName demo_env ''MINECRAFT:healing'' = None \<and>
   rollEntry_selected demo_env (item_entry ''minecraft:stick'' 1 []) (runtime_of [])
     = Some (((OtherItem ''stick'', 1, []), True), runtime_of []) \<and>
   rollEntry_selected demo_env (add_prefix (item_entry ''minecraft:stick'' 1 [])) (runtime_of [])
     = Some ((EmptyStack demo_env, False),
         Printf (''[Loot System] Item not found: minecraft:stick'' @ [CHR 0x0A]) (runtime_of []))"
  by (simp add: enchantmentByName_def potionByName_def demo_env_def TrimPrefix_def
      enchantment_names_def potion_names_def ascii_lower_def rollEntry_selected_def
      item_entry_def add_prefix_def)

theorem prefix_invariance_witness:
  "rollEntry_selected demo_env (add_prefix (item_entry ''stick'' 1 [])) (runtime_of [])
     = Some (((OtherItem ''stick'', 1, []), True), runtime_of []) \<and>
   map_option (\<lambda>(res, p', w'). (res, w'))
     (rollEntry demo_env \<lparr>Rolls = fixed 1, Entries = [add_prefix (item_entry ''stick'' 1 [])]\<rparr>
        (runtime_of []))
     = Some (((OtherItem ''stick'', 1, []), True), (runtime_of [])\<lparr>pos := 1\<rparr>) \<and>
   enchantmentByName demo_env ''minecraft:sharpness'' = Some Sharpness \<and>
   enchantmentByName demo_env ''SharpNess'' = Some Sharpness \<and>
   enchantmentByName demo_env ''minecraft:SharpNess'' = Some Sharpness \<and>
   potionByName demo_env ''minecraft:healing'' = Some Healing \<and>
   potionByName demo_env ''HEALING'' = Some Healing \<and>
   potionByName demo_env ''minecraft:HEALING'' = Some Healing"
proof -
  have n: "\<not> prefix ''minecraft:'' (Name (item_entry ''stick'' 1 []))"
    "\<forall>e \<in> set (Entries \<lparr>Rolls = fixed 1, Entries = [item_entry ''stick'' 1 []]\<rparr>).
       \<not> prefix ''minecraft:'' (Name e)"
    by (simp_all add: item_entry_def)
  have sel: "rollEntry_selected demo_env (item_entry ''stick'' 1 []) (runtime_of [])
     = Some (((OtherItem ''stick'', 1, []), True), runtime_of [])"
    by (simp add: rollEntry_selected_def item_entry_def demo_env_def TrimPrefix_def)
  have roll: "rollEntry demo_env \<lparr>Rolls = fixed 1, Entries = [item_entry ''stick'' 1 []]\<rparr>
        (runtime_of [])
     = Some (((OtherItem ''stick'', 1, []), True),
         \<lparr>Rolls = fixed 1, Entries = [item_entry ''stick'' 1 []]\<rparr>, (runtime_of [])\<lparr>pos := 1\<rparr>)"
    by (simp add: rollEntry_def item_entry_def Intn_def word_sle_eq word_sless_alt
        rollEntry_selected_def TrimPrefix_def demo_env_def runtime_of_def)
  have e: "\<not> prefix ''minecraft:'' ''sharpness''" "\<not> prefix ''minecraft:'' ''SharpNess''"
    "ToLower demo_env ''SharpNess'' = ToLower demo_env ''sharpness''"
    "enchantmentByName demo_env ''sharpness'' = Some Sharpness"
    by (simp_all add: demo_env_def ascii_lower_def enchantmentByName_def TrimPrefix_def
        enchantment_names_def)
  have p: "\<not> prefix ''minecraft:'' ''healing''" "\<not> prefix ''minecraft:'' ''HEALING''"
    "ToLower demo_env ''HEALING'' = ToLower demo_env ''healing''"
    "potionByName demo_env ''healing'' = Some Healing"
    by (simp_all add: demo_env_def ascii_lower_def potionByName_def TrimPrefix_def
        potion_names_def)
  from prefix_invariance [of "item_entry ''stick'' 1 []" demo_env "runtime_of []"
      "\<lparr>Rolls = fixed 1, Entries = [item_entry ''stick'' 1 []]\<rparr>" "''sharpness''" "''SharpNess''"]
    n sel roll e
  have 1: "rollEntry_selected demo_env (add_prefix (item_entry ''stick'' 1 [])) (runtime_of [])
     = Some (((OtherItem ''stick'', 1, []), True), runtime_of [])"
    and 2: "map_option (\<lambda>(res, p', w'). (res, w'))
     (rollEntry demo_env \<lparr>Rolls = fixed 1, Entries = [add_prefix (item_entry ''stick'' 1 [])]\<rparr>
        (runtime_of []))
     = Some (((OtherItem ''stick'', 1, []), True), (runtime_of [])\<lparr>pos := 1\<rparr>)"
    and 3: "enchantmentByName demo_env ''minecraft:sharpness'' = Some Sharpness"
      "enchantmentByName demo_env ''SharpNess'' = Some Sharpness"
      "enchantmentByName demo_env ''minecraft:SharpNess'' = Some Sharpness"
    by simp_all
  from prefix_invariance [of "item_entry ''stick'' 1 []" demo_env "runtime_of []"
      "\<lparr>Rolls = fixed 1, Entries = [item_entry ''stick'' 1 []]\<rparr>" "''healing''" "''HEALING''"]
    p
  have 4: "potionByName demo_env ''minecraft:healing'' = Some Healing"
      "potionByName demo_env ''HEALING'' = Some Healing"
      "potionByName demo_env ''minecraft:HEALING'' = Some Healing"
    by simp_all
  from 1 2 3 4 show ?thesis by simp
qed

section \<open>Parsing\<close>

text \<open>
  Claim C8. \<^verbatim>\<open>Value.UnmarshalJSON\<close> never returns an error. It takes the scalar
  interpretation when the data decodes as an integer; otherwise the interpretation as an
  object with \<open>min\<close> and \<open>max\<close> when the data decodes so; when neither matches it leaves
  the range as it was, which for the zero value of a freshly declared table is the zero
  range. When the decoder reports an error for the top-level structure,
  \<^verbatim>\<open>LoadTable\<close> returns that error, and \<^verbatim>\<open>Generate(path)\<close> returns no stacks and
  \<open>false\<close> without consuming a draw: the table's \<^verbatim>\<open>Generate\<close> is not run.
\<close>

theorem UnmarshalJSON_LoadTable:
  "snd (UnmarshalJSON ld v data) = None \<and>
   (\<forall>i. Unmarshal_int ld data = Some i \<longrightarrow>
      fst (UnmarshalJSON ld v data) = \<lparr>Min_val = i, Max_val = i\<rparr>) \<and>
   (\<forall>a b. Unmarshal_int ld data = None \<and> Unmarshal_min_max ld data = Some (a, b) \<longrightarrow>
      fst (UnmarshalJSON ld v data) = \<lparr>Min_val = a, Max_val = b\<rparr>) \<and>
   (Unmarshal_int ld data = None \<and> Unmarshal_min_max ld data = None \<longrightarrow>
      fst (UnmarshalJSON ld v data) = v \<and>
      UnmarshalJSON ld \<lparr>Min_val = 0, Max_val = 0\<rparr> data = (\<lparr>Min_val = 0, Max_val = 0\<rparr>, None)) \<and>
   (\<forall>b t err. ReadFile ld path = Inr b \<and> Unmarshal_table ld b = (t, Some err) \<longrightarrow>
      snd (LoadTable ld path) = Some err \<and>
      (\<exists>w'. Generate env ld path w = Some (([], False), w')
         \<and> draws w' = draws w \<and> pos w' = pos w))"
  by (auto simp: UnmarshalJSON_def LoadTable_def Generate_def Printf_def
      split: option.splits prod.splits)

theorem UnmarshalJSON_LoadTable_witness:
  \<open>UnmarshalJSON demo_loader \<lparr>Min_val = 0, Max_val = 0\<rparr> ''5''
     = (\<lparr>Min_val = 5, Max_val = 5\<rparr>, None) \<and>
   UnmarshalJSON demo_loader \<lparr>Min_val = 0, Max_val = 0\<rparr> ''{"min":1,"max":3}''
     = (\<lparr>Min_val = 1, Max_val = 3\<rparr>, None) \<and>
   UnmarshalJSON demo_loader \<lparr>Min_val = 0, Max_val = 0\<rparr> ''true''
     = (\<lparr>Min_val = 0, Max_val = 0\<rparr>, None) \<and>
   snd (LoadTable demo_loader ''chests/bad.json'') \<noteq> None \<and>
   (\<exists>w'. Generate demo_env demo_loader ''chests/bad.json'' (runtime_of [4])
            = Some (([], False), w') \<and> pos w' = 0)\<close>
proof -
  have i: \<open>Unmarshal_int demo_loader ''5'' = Some 5\<close>
    \<open>Unmarshal_int demo_loader ''{"min":1,"max":3}'' = None\<close>
    \<open>Unmarshal_min_max demo_loader ''{"min":1,"max":3}'' = Some (1, 3)\<close>
    \<open>Unmarshal_int demo_loader ''true'' = None\<close>
    \<open>Unmarshal_min_max demo_loader ''true'' = None\<close>
    \<open>ReadFile demo_loader ''chests/bad.json'' = Inr ''{"pools":"x"}''\<close>
    \<open>Unmarshal_table demo_loader ''{"pools":"x"}''
       = (\<lparr>Pools = []\<rparr>, Some ''json: cannot unmarshal string into Go struct field'')\<close>
    by (simp_all add: demo_loader_def)
  note t = UnmarshalJSON_LoadTable [of demo_loader "\<lparr>Min_val = 0, Max_val = 0\<rparr>" _
      "''chests/bad.json''" demo_env "runtime_of [4]"]
  from t [of "''5''"] i have 1: \<open>UnmarshalJSON demo_loader \<lparr>Min_val = 0, Max_val = 0\<rparr> ''5''
     = (\<lparr>Min_val = 5, Max_val = 5\<rparr>, None)\<close>
    by (simp add: prod_eq_iff)
  from t [of \<open>''{"min":1,"max":3}''\<close>] i
  have 2: \<open>UnmarshalJSON demo_loader \<lparr>Min_val = 0, Max_val = 0\<rparr> ''{"min":1,"max":3}''
     = (\<lparr>Min_val = 1, Max_val = 3\<rparr>, None)\<close>
    by (simp add: prod_eq_iff)
  from t [of "''true''"] i have 3: \<open>UnmarshalJSON demo_loader \<lparr>Min_val = 0, Max_val = 0\<rparr> ''true''
     = (\<lparr>Min_val = 0, Max_val = 0\<rparr>, None)\<close>
    by simp
  from t [of "''true''"] i have 4: \<open>snd (LoadTable demo_loader ''chests/bad.json'') \<noteq> None
   \<and> (\<exists>w'. Generate demo_env demo_loader ''chests/bad.json'' (runtime_of [4])
            = Some (([], False), w') \<and> pos w' = 0)\<close>
    by (auto simp: runtime_of_def)
  from 1 2 3 4 show ?thesis by blast
qed

section \<open>The table after generation\<close>

lemma rollEntry_pool:
  assumes "rollEntry env p w = Some (res, p', w')"
  shows "p' = p"
proof -
  obtain es tw where wl: "rollEntry_weights (Entries p) 0 = (es, tw)"
    by (cases "rollEntry_weights (Entries p) 0")
  then have "es = Entries p" by (rule rollEntry_weights_slice')
  with assms wl show ?thesis
    by (auto simp: rollEntry_def split: if_splits Option.bind_splits)
qed

lemma Generate_rolls_pool:
  "Generate_rolls env p i rolls stacks w = Some (out, p', w') \<Longrightarrow> p' = p"
proof (induction env p i rolls stacks w rule: Generate_rolls.induct)
  case (1 env p i rolls stacks w)
  show ?case
  proof (cases "i <s rolls")
    case False
    with "1.prems" show ?thesis by (simp add: Generate_rolls.simps)
  next
    case True
    with "1.prems" obtain s ok p1 w1 where r: "rollEntry env p w = Some ((s, ok), p1, w1)"
      and rec: "Generate_rolls env p1 (i + 1) rolls (if ok then stacks @ [s] else stacks) w1
                  = Some (out, p', w')"
      by (subst (asm) Generate_rolls.simps) (auto split: option.splits)
    from "1.IH" [OF True r refl refl refl rec] have "p' = p1" .
    with rollEntry_pool [OF r] show ?thesis by simp
  qed
qed

lemma Generate_pools_pools:
  "Generate_pools env ps stacks w = Some (out, ps', w') \<Longrightarrow> ps' = ps"
proof (induction ps arbitrary: stacks w out ps' w')
  case Nil
  then show ?case by simp
next
  case (Cons x xs)
  from Cons.prems obtain rolls w1 st1 p1 w2 xs1
    where "Generate_rolls env x 0 rolls stacks w1 = Some (st1, p1, w2)"
      and "Generate_pools env xs st1 w2 = Some (out, xs1, w')"
      and "ps' = x\<lparr>Entries := Entries p1\<rparr> # xs1"
    by (auto simp: Let_def split: Option.bind_splits)
  with Generate_rolls_pool [of env x 0 rolls stacks w1 st1 p1 w2] Cons.IH [of st1 w2 out xs1 w']
  show ?case by simp
qed

text \<open>
  Claim C9. A call of \<^verbatim>\<open>LootTable.Generate\<close> that returns leaves the table with all
  its pools, entries, weights, ranges and functions exactly as it was before the call,
  weights of 0 included: the normalisation in \<^verbatim>\<open>rollEntry\<close> writes to the loop copy.
\<close>

theorem Generate_leaves_table:
  assumes "LootTable_Generate env t w = Some (stacks, t', w')"
  shows "t' = t"
proof -
  from assms obtain ps where g: "Generate_pools env (Pools t) [] w = Some (stacks, ps, w')"
    and t': "t' = t\<lparr>Pools := ps\<rparr>"
    by (auto simp: LootTable_Generate_def split: Option.bind_splits)
  from g have "ps = Pools t" by (rule Generate_pools_pools)
  with t' show ?thesis by simp
qed

theorem Generate_leaves_table_witness:
  "\<exists>stacks w'.
     LootTable_Generate demo_env
       \<lparr>Pools = [\<lparr>Rolls = fixed 2,
                  Entries = [item_entry ''stick'' 0 [], item_entry ''diamond_sword'' 3 []]\<rparr>]\<rparr>
       (runtime_of [0, 3])
     = Some (stacks,
         \<lparr>Pools = [\<lparr>Rolls = fixed 2,
                  Entries = [item_entry ''stick'' 0 [], item_entry ''diamond_sword'' 3 []]\<rparr>]\<rparr>,
         w')"
proof -
  have "LootTable_Generate demo_env
       \<lparr>Pools = [\<lparr>Rolls = fixed 2,
                  Entries = [item_entry ''stick'' 0 [], item_entry ''diamond_sword'' 3 []]\<rparr>]\<rparr>
       (runtime_of [0, 3]) \<noteq> None"
    by (simp add: LootTable_Generate_def RollValue_def fixed_def Generate_rolls.simps
        rollEntry_def item_entry_def Intn_def word_sle_eq word_sless_alt
        rollEntry_selected_def TrimPrefix_def demo_env_def runtime_of_def)
  then obtain stacks t' w' where g: "LootTable_Generate demo_env
       \<lparr>Pools = [\<lparr>Rolls = fixed 2,
                  Entries = [item_entry ''stick'' 0 [], item_entry ''diamond_sword'' 3 []]\<rparr>]\<rparr>
       (runtime_of [0, 3]) = Some (stacks, t', w')"
    by auto
  from Generate_leaves_table [OF g] g show ?thesis by blast
qed



section \<open>Rolls that produce no stack\<close>

lemma rollEntry_pick_selected:
  "rollEntry_pick env es r current w =
     (case selected_entry es r current of
        None \<Rightarrow> Some ((EmptyStack env, False), w)
      | Some e \<Rightarrow> rollEntry_selected env e w)"
  by (induction es arbitrary: current) (simp_all add: Let_def)

lemma selected_entry_in_set: "selected_entry es r current = Some e \<Longrightarrow> e \<in> set es"
  by (induction es arbitrary: current) (auto simp: Let_def split: if_splits)

lemma rollEntry_selected_non_item:
  "Type e \<noteq> ''item'' \<Longrightarrow> rollEntry_selected env e w = Some ((EmptyStack env, False), w)"
  by (simp add: rollEntry_selected_def)

lemma rollEntry_unfold:
  "rollEntry env p w =
     (if snd (rollEntry_weights (Entries p) 0) \<le>s 0 then Some ((EmptyStack env, False), p, w)
      else case Intn (snd (rollEntry_weights (Entries p) 0)) w of
             None \<Rightarrow> None
           | Some (r, w1) \<Rightarrow>
               (case rollEntry_pick env (Entries p) r 0 w1 of
                  None \<Rightarrow> None
                | Some (res, w2) \<Rightarrow> Some (res, p, w2)))"
proof -
  obtain es tw where wl: "rollEntry_weights (Entries p) 0 = (es, tw)"
    by (cases "rollEntry_weights (Entries p) 0")
  then have "es = Entries p" by (rule rollEntry_weights_slice')
  with wl show ?thesis
    by (simp add: rollEntry_def split: option.splits Option.bind_splits)
qed

lemma rollEntry_empty:
  "Entries p = [] \<Longrightarrow> rollEntry env p w = Some ((EmptyStack env, False), p, w)"
  by (simp add: rollEntry_unfold word_sle_eq)

lemma rollEntry_non_items:
  assumes "\<forall>e \<in> set (Entries p). Type e \<noteq> ''item''"
  shows "\<exists>w'. rollEntry env p w = Some ((EmptyStack env, False), p, w')
           \<and> draws w' = draws w \<and> printed w' = printed w"
proof (cases "snd (rollEntry_weights (Entries p) 0) \<le>s 0")
  case True
  then show ?thesis by (simp add: rollEntry_unfold)
next
  case False
  then have "0 <s snd (rollEntry_weights (Entries p) 0)"
    by (simp add: word_sle_eq word_sless_alt)
  from Intn_Some [OF this, of w] obtain r
    where I: "Intn (snd (rollEntry_weights (Entries p) 0)) w = Some (r, w\<lparr>pos := Suc (pos w)\<rparr>)"
    by blast
  have "rollEntry_pick env (Entries p) r 0 (w\<lparr>pos := Suc (pos w)\<rparr>)
          = Some ((EmptyStack env, False), w\<lparr>pos := Suc (pos w)\<rparr>)"
    using assms
    by (auto simp: rollEntry_pick_selected rollEntry_selected_non_item
        split: option.splits dest: selected_entry_in_set)
  with False I show ?thesis by (simp add: rollEntry_unfold)
qed

lemma Generate_rolls_no_stack:
  assumes "\<And>w. \<exists>w'. rollEntry env p w = Some ((EmptyStack env, False), p, w')
                \<and> draws w' = draws w \<and> printed w' = printed w"
  shows "\<exists>w'. Generate_rolls env p i rolls stacks w = Some (stacks, p, w')
           \<and> draws w' = draws w \<and> printed w' = printed w"
  using assms
proof (induction env p i rolls stacks w rule: Generate_rolls.induct)
  case (1 env p i rolls stacks w)
  show ?case
  proof (cases "i <s rolls")
    case False
    then show ?thesis by (simp add: Generate_rolls.simps)
  next
    case True
    from "1.prems" [of w] obtain w1
      where r: "rollEntry env p w = Some ((EmptyStack env, False), p, w1)"
        and s: "draws w1 = draws w" "printed w1 = printed w"
      by blast
    from "1.IH" [OF True r refl refl refl "1.prems"] obtain w'
      where "Generate_rolls env p (i + 1) rolls stacks w1 = Some (stacks, p, w')"
        and "draws w' = draws w1" "printed w' = printed w1"
      by auto
    with True r s show ?thesis
      by (subst Generate_rolls.simps) simp
  qed
qed

lemma Generate_rolls_empty:
  "Entries p = [] \<Longrightarrow> Generate_rolls env p i rolls stacks w = Some (stacks, p, w)"
proof (induction env p i rolls stacks w rule: Generate_rolls.induct)
  case (1 env p i rolls stacks w)
  show ?case
  proof (cases "i <s rolls")
    case False
    then show ?thesis by (simp add: Generate_rolls.simps)
  next
    case True
    from "1.prems" have r: "rollEntry env p w = Some ((EmptyStack env, False), p, w)"
      by (rule rollEntry_empty)
    from "1.IH" [OF True r refl refl refl "1.prems"] True r show ?thesis
      by (subst Generate_rolls.simps) simp
  qed
qed

lemma Generate_pools_skip:
  assumes "RollValue (Rolls p) w = Some (rolls, w1)"
    and "Generate_rolls env p 0 rolls stacks w1 = Some (stacks', p, w2)"
  shows "Generate_pools env (p # ps) stacks w =
     (case Generate_pools env ps stacks' w2 of
        None \<Rightarrow> None
      | Some (out, ps', w3) \<Rightarrow> Some (out, p # ps', w3))"
  using assms by (simp split: option.splits Option.bind_splits)

text \<open>
  Claim C7, amended. For a pool whose entries list is empty, every call of
  \<^verbatim>\<open>rollEntry\<close> returns the empty stack and \<open>ok = false\<close> and changes nothing, and
  the loop over its rolls contributes no stack and consumes no draw, whatever the number
  of rolls. When moreover the number of values of the pool's rolls range is representable,
  the pool's only trace in a generation is the roll of that range: the call goes on with
  the remaining pools, from the stacks collected so far, and fails only if one of them
  does.
\<close>

theorem empty_pool_contributes_nothing:
  "Entries p = [] \<longrightarrow>
     rollEntry env p w = Some ((EmptyStack env, False), p, w) \<and>
     (\<forall>i rolls. Generate_rolls env p i rolls stacks w = Some (stacks, p, w)) \<and>
     (span_ok (Rolls p) \<longrightarrow>
        (\<exists>rolls w1. RollValue (Rolls p) w = Some (rolls, w1) \<and>
           Generate_pools env (p # ps) stacks w =
             (case Generate_pools env ps stacks w1 of
                None \<Rightarrow> None
              | Some (out, ps', w2) \<Rightarrow> Some (out, p # ps', w2))))"
proof (intro impI conjI allI)
  assume e: "Entries p = []"
  then show "rollEntry env p w = Some ((EmptyStack env, False), p, w)"
    by (rule rollEntry_empty)
  show "Generate_rolls env p i rolls stacks w = Some (stacks, p, w)" for i rolls
    using e by (rule Generate_rolls_empty)
  assume "span_ok (Rolls p)"
  from RollValue_returns [OF this, of w] obtain rolls w1
    where r: "RollValue (Rolls p) w = Some (rolls, w1)" by blast
  from Generate_pools_skip [OF r Generate_rolls_empty [OF e]] r
  show "\<exists>rolls w1. RollValue (Rolls p) w = Some (rolls, w1) \<and>
           Generate_pools env (p # ps) stacks w =
             (case Generate_pools env ps stacks w1 of
                None \<Rightarrow> None
              | Some (out, ps', w2) \<Rightarrow> Some (out, p # ps', w2))"
    by blast
qed

text \<open>
  Claim C7 as stated, that a pool without entries never makes the generation call fail,
  does not hold for every such pool: with the rolls range \<open>{0, 2\<^sup>6\<^sup>3 - 1}\<close> the argument
  of \<^verbatim>\<open>rand.Intn\<close> wraps to a negative number, and the call panics before the second
  pool is reached.
\<close>

theorem empty_pool_rolls_overflow_counterexample:
  "LootTable_Generate demo_env
     \<lparr>Pools = [\<lparr>Rolls = \<lparr>Min_val = 0, Max_val = 0x7FFFFFFFFFFFFFFF\<rparr>, Entries = []\<rparr>,
               \<lparr>Rolls = fixed 1, Entries = [item_entry ''stick'' 1 []]\<rparr>]\<rparr>
     (runtime_of [])
   = None"
  by (simp add: LootTable_Generate_def RollValue_def Intn_def word_sle_eq)

theorem empty_pool_contributes_nothing_witness:
  "rollEntry demo_env \<lparr>Rolls = \<lparr>Min_val = 1, Max_val = 3\<rparr>, Entries = []\<rparr> (runtime_of [1])
     = Some ((EmptyStack demo_env, False), \<lparr>Rolls = \<lparr>Min_val = 1, Max_val = 3\<rparr>, Entries = []\<rparr>,
             runtime_of [1]) \<and>
   LootTable_Generate demo_env
     \<lparr>Pools = [\<lparr>Rolls = \<lparr>Min_val = 1, Max_val = 3\<rparr>, Entries = []\<rparr>,
               \<lparr>Rolls = fixed 1, Entries = [item_entry ''stick'' 1 []]\<rparr>]\<rparr>
     (runtime_of [1])
   = Some ([(OtherItem ''stick'', 1, [])],
       \<lparr>Pools = [\<lparr>Rolls = \<lparr>Min_val = 1, Max_val = 3\<rparr>, Entries = []\<rparr>,
               \<lparr>Rolls = fixed 1, Entries = [item_entry ''stick'' 1 []]\<rparr>]\<rparr>,
       (runtime_of [1])\<lparr>pos := 2\<rparr>)"
proof -
  have h: "Entries \<lparr>Rolls = \<lparr>Min_val = 1, Max_val = 3\<rparr>, Entries = []\<rparr> = []"
    "span_ok (Rolls \<lparr>Rolls = \<lparr>Min_val = 1, Max_val = 3\<rparr>, Entries = []\<rparr>)"
    by (simp_all add: span_ok_def)
  have rv: "RollValue \<lparr>Min_val = 1, Max_val = 3\<rparr> (runtime_of [1])
              = Some (2, (runtime_of [1])\<lparr>pos := 1\<rparr>)"
    by (simp add: RollValue_def Intn_def word_sle_eq runtime_of_def)
  have rest: "Generate_pools demo_env [\<lparr>Rolls = fixed 1, Entries = [item_entry ''stick'' 1 []]\<rparr>]
                [] ((runtime_of [1])\<lparr>pos := 1\<rparr>)
     = Some ([(OtherItem ''stick'', 1, [])],
             [\<lparr>Rolls = fixed 1, Entries = [item_entry ''stick'' 1 []]\<rparr>],
             (runtime_of [1])\<lparr>pos := 2\<rparr>)"
    by (simp add: RollValue_def fixed_def Generate_rolls.simps
        rollEntry_def item_entry_def Intn_def word_sle_eq word_sless_alt
        rollEntry_selected_def TrimPrefix_def demo_env_def runtime_of_def)
  from empty_pool_contributes_nothing
         [of "\<lparr>Rolls = \<lparr>Min_val = 1, Max_val = 3\<rparr>, Entries = []\<rparr>" demo_env "runtime_of [1]" "[]"
             "[\<lparr>Rolls = fixed 1, Entries = [item_entry ''stick'' 1 []]\<rparr>]"] h rv rest
  show ?thesis
    by (simp add: LootTable_Generate_def)
qed

text \<open>
  Claim C6, amended. Whenever the draw \<open>r\<close> of a roll selects an entry whose type is
  not \<^verbatim>\<open>item\<close>, \<^verbatim>\<open>rollEntry\<close> returns the empty stack and \<open>ok = false\<close>, having
  consumed exactly that one draw (no retry, no other entry). A pool whose single entry
  has another type than \<^verbatim>\<open>item\<close> yields no stack at any roll; when moreover the number
  of values of its rolls range is representable, it contributes no stack to the
  generation, which goes on with the remaining pools from the same stacks and the same
  random stream, and fails only if one of them does.
\<close>

theorem non_item_entry_no_stack:
  "(\<forall>e r w1. Intn (snd (rollEntry_weights (Entries p) 0)) w = Some (r, w1)
        \<and> selected_entry (Entries p) r 0 = Some e \<and> Type e \<noteq> ''item'' \<longrightarrow>
      rollEntry env p w = Some ((EmptyStack env, False), p, w\<lparr>pos := Suc (pos w)\<rparr>)) \<and>
   (\<forall>e. Entries p = [e] \<and> Type e \<noteq> ''item'' \<longrightarrow>
      (\<exists>w'. rollEntry env p w = Some ((EmptyStack env, False), p, w')
         \<and> draws w' = draws w \<and> printed w' = printed w) \<and>
      (span_ok (Rolls p) \<longrightarrow>
        (\<exists>w'. draws w' = draws w \<and> printed w' = printed w \<and>
           Generate_pools env (p # ps) stacks w =
             (case Generate_pools env ps stacks w' of
                None \<Rightarrow> None
              | Some (out, ps', w2) \<Rightarrow> Some (out, p # ps', w2)))))"
proof (intro conjI allI impI)
  fix e r w1
  assume a: "Intn (snd (rollEntry_weights (Entries p) 0)) w = Some (r, w1)
        \<and> selected_entry (Entries p) r 0 = Some e \<and> Type e \<noteq> ''item''"
  then have "\<not> snd (rollEntry_weights (Entries p) 0) \<le>s 0"
    by (auto simp: Intn_def)
  moreover from a Intn_bounds [of "snd (rollEntry_weights (Entries p) 0)" w r w1]
  have "w1 = w\<lparr>pos := Suc (pos w)\<rparr>" by simp
  ultimately show "rollEntry env p w = Some ((EmptyStack env, False), p, w\<lparr>pos := Suc (pos w)\<rparr>)"
    using a by (simp add: rollEntry_unfold rollEntry_pick_selected rollEntry_selected_non_item)
next
  fix e
  assume a: "Entries p = [e] \<and> Type e \<noteq> ''item''"
  then have all: "\<forall>e \<in> set (Entries p). Type e \<noteq> ''item''" by simp
  from rollEntry_non_items [OF all]
  show "\<exists>w'. rollEntry env p w = Some ((EmptyStack env, False), p, w')
         \<and> draws w' = draws w \<and> printed w' = printed w" .
  assume "span_ok (Rolls p)"
  from RollValue_returns [OF this, of w] obtain rolls w1
    where r: "RollValue (Rolls p) w = Some (rolls, w1)" by blast
  from RollValue_state [OF r] have s1: "draws w1 = draws w" "printed w1 = printed w" by simp_all
  from Generate_rolls_no_stack [of env p 0 rolls stacks w1] rollEntry_non_items [OF all, of env]
  obtain w2 where g: "Generate_rolls env p 0 rolls stacks w1 = Some (stacks, p, w2)"
    and s2: "draws w2 = draws w1" "printed w2 = printed w1"
    by blast
  from Generate_pools_skip [OF r g] s1 s2
  show "\<exists>w'. draws w' = draws w \<and> printed w' = printed w \<and>
           Generate_pools env (p # ps) stacks w =
             (case Generate_pools env ps stacks w' of
                None \<Rightarrow> None
              | Some (out, ps', w2) \<Rightarrow> Some (out, p # ps', w2))"
    by auto
qed

text \<open>
  Claim C6 as stated, that such a pool never aborts the whole table, does not hold for
  every such pool: with the rolls range \<open>{0, 2\<^sup>6\<^sup>3 - 1}\<close> the call panics in
  \<^verbatim>\<open>rand.Intn\<close>.
\<close>

theorem non_item_pool_rolls_overflow_counterexample:
  "LootTable_Generate demo_env
     \<lparr>Pools = [\<lparr>Rolls = \<lparr>Min_val = 0, Max_val = 0x7FFFFFFFFFFFFFFF\<rparr>,
                Entries = [\<lparr>Type = ''loot_table'', Name = ''chests/other'', Weight = 1,
                            Functions = []\<rparr>]\<rparr>,
               \<lparr>Rolls = fixed 1, Entries = [item_entry ''stick'' 1 []]\<rparr>]\<rparr>
     (runtime_of [])
   = None"
  by (simp add: LootTable_Generate_def RollValue_def Intn_def word_sle_eq)

theorem non_item_entry_no_stack_witness:
  "rollEntry demo_env
     \<lparr>Rolls = fixed 3,
      Entries = [item_entry ''stick'' 1 [],
                 \<lparr>Type = ''loot_table'', Name = ''chests/other'', Weight = 2, Functions = []\<rparr>]\<rparr>
     (runtime_of [4])
   = Some ((EmptyStack demo_env, False),
       \<lparr>Rolls = fixed 3,
        Entries = [item_entry ''stick'' 1 [],
                   \<lparr>Type = ''loot_table'', Name = ''chests/other'', Weight = 2, Functions = []\<rparr>]\<rparr>,
       (runtime_of [4])\<lparr>pos := 1\<rparr>) \<and>
   (\<exists>w'. LootTable_Generate demo_env
       \<lparr>Pools = [\<lparr>Rolls = fixed 3,
                  Entries = [\<lparr>Type = ''loot_table'', Name = ''chests/other'', Weight = 2,
                              Functions = []\<rparr>]\<rparr>,
                 \<lparr>Rolls = fixed 1, Entries = [item_entry ''stick'' 1 []]\<rparr>]\<rparr>
       (runtime_of [4])
     = Some ([(OtherItem ''stick'', 1, [])],
         \<lparr>Pools = [\<lparr>Rolls = fixed 3,
                  Entries = [\<lparr>Type = ''loot_table'', Name = ''chests/other'', Weight = 2,
                              Functions = []\<rparr>]\<rparr>,
                 \<lparr>Rolls = fixed 1, Entries = [item_entry ''stick'' 1 []]\<rparr>]\<rparr>,
         w'))"
proof -
  let ?other = "\<lparr>Type = ''loot_table'', Name = ''chests/other'', Weight = 2, Functions = []\<rparr>"
  let ?p = "\<lparr>Rolls = fixed 3, Entries = [item_entry ''stick'' 1 [], ?other]\<rparr>"
  let ?q = "\<lparr>Rolls = fixed 3, Entries = [?other]\<rparr>"
  let ?s = "\<lparr>Rolls = fixed 1, Entries = [item_entry ''stick'' 1 []]\<rparr>"
  have a: "Intn (snd (rollEntry_weights (Entries ?p) 0)) (runtime_of [4])
             = Some (1, (runtime_of [4])\<lparr>pos := 1\<rparr>)"
    "selected_entry (Entries ?p) 1 0 = Some ?other" "Type ?other \<noteq> ''item''"
    by (simp_all add: item_entry_def Intn_def word_sle_eq word_sless_alt runtime_of_def)
  from non_item_entry_no_stack [of ?p "runtime_of [4]" demo_env "[]" "[]"] a
  have 1: "rollEntry demo_env ?p (runtime_of [4])
             = Some ((EmptyStack demo_env, False), ?p, (runtime_of [4])\<lparr>pos := 1\<rparr>)"
    by (simp add: runtime_of_def)
  have b: "Entries ?q = [?other]" "span_ok (Rolls ?q)"
    by (simp_all add: span_ok_def fixed_def)
  from non_item_entry_no_stack [of ?q "runtime_of [4]" demo_env "[?s]" "[]"] a(3) b
  obtain w' where w': "draws w' = draws (runtime_of [4])" "printed w' = printed (runtime_of [4])"
    and g: "Generate_pools demo_env (?q # [?s]) [] (runtime_of [4]) =
             (case Generate_pools demo_env [?s] [] w' of
                None \<Rightarrow> None
              | Some (out, ps', w2) \<Rightarrow> Some (out, ?q # ps', w2))"
    by blast
  have "Generate_pools demo_env [?s] [] w'
     = Some ([(OtherItem ''stick'', 1, [])], [?s], w'\<lparr>pos := Suc (pos w')\<rparr>)"
    by (simp add: RollValue_def fixed_def Generate_rolls.simps
        rollEntry_def item_entry_def Intn_def word_sle_eq word_sless_alt
        rollEntry_selected_def TrimPrefix_def demo_env_def)
  with g have 2: "\<exists>w'. LootTable_Generate demo_env \<lparr>Pools = [?q, ?s]\<rparr> (runtime_of [4])
     = Some ([(OtherItem ''stick'', 1, [])], \<lparr>Pools = [?q, ?s]\<rparr>, w')"
    by (simp add: LootTable_Generate_def)
  from 1 2 show ?thesis by blast
qed

section \<open>The function pipeline returns\<close>

lemma sint_of_nat_small:
  assumes "n \<le> 26"
  shows "sint (of_nat n :: goint) = int n"
proof -
  from assms have "int n < 2 ^ 63" by simp
  then have "sint (word_of_int (int n) :: goint) = int n"
    by (intro sint_word_of_int_small) simp_all
  then show ?thesis by simp
qed

lemma applyRandomEnchant_returns:
  "\<exists>s' w'. applyRandomEnchant env s w = Some (s', w')"
proof -
  define valid where
    "valid = filter (\<lambda>enc. CompatibleWithItem env enc (StackItem env s)) getAllEnchantments"
  have "length valid \<le> length getAllEnchantments"
    unfolding valid_def by (rule length_filter_le)
  then have len: "length valid \<le> 26" by (simp add: getAllEnchantments_def)
  show ?thesis
  proof (cases "0 < length valid")
    case False
    then show ?thesis by (simp add: applyRandomEnchant_def flip: valid_def)
  next
    case True
    have n: "sint (of_nat (length valid) :: goint) = int (length valid)"
      using len by (rule sint_of_nat_small)
    with True have "0 <s (of_nat (length valid) :: goint)" by (simp add: word_sless_alt)
    from Intn_Some [OF this, of w] obtain r w'
      where I: "Intn (of_nat (length valid)) w = Some (r, w')" by blast
    from Intn_bounds [OF I] n have "0 \<le> sint r" "nat (sint r) < length valid" by linarith+
    with True I show ?thesis
      by (simp add: applyRandomEnchant_def word_sle_eq flip: valid_def)
  qed
qed

lemma applyEnchantWithLevels_returns:
  "\<exists>s' w'. applyEnchantWithLevels env s levels w = Some (s', w')"
proof (cases "levels \<le>s 0")
  case True
  then show ?thesis
    by (simp add: applyEnchantWithLevels_def applyEnchantWithLevels_loop_nonpos)
next
  case False
  then have "0 <s levels" by (simp add: word_sle_eq word_sless_alt)
  from applyEnchantWithLevels_loop_find [OF this, of env getAllEnchantments s w]
  show ?thesis
    by (simp add: applyEnchantWithLevels_def split: option.splits)
qed

lemma specific_enchants_returns:
  "list_all (\<lambda>spec. span_ok (Level spec)) specs \<Longrightarrow>
   \<exists>s' w'. specific_enchants env specs s w = Some (s', w')"
proof (induction specs arbitrary: s w)
  case Nil
  then show ?case by simp
next
  case (Cons spec specs)
  show ?case
  proof (cases "enchantmentByName env (ID_ec spec)")
    case None
    with Cons show ?thesis by simp
  next
    case (Some enc)
    from Cons.prems have "span_ok (Level spec)" by simp
    from RollValue_returns [OF this, of w] obtain lvl w1
      where "RollValue (Level spec) w = Some (lvl, w1)" by blast
    with Some Cons.IH [of "WithEnchantments env s (enc, lvl)" w1] Cons.prems
    show ?thesis by simp
  qed
qed

lemma rollEntry_switch_returns:
  assumes "ranges_ok f"
  shows "\<exists>s' w'. rollEntry_switch env f s w = Some (s', w')"
proof -
  from assms have l: "span_ok (Levels f)"
    and e: "list_all (\<lambda>spec. span_ok (Level spec)) (Enchants f)"
    by (simp_all add: ranges_ok_def)
  from RollValue_returns [OF l, of w] obtain levels w1
    where r: "RollValue (Levels f) w = Some (levels, w1)" by blast
  from applyRandomEnchant_returns [of env s w]
    applyEnchantWithLevels_returns [of env s levels w1]
    specific_enchants_returns [OF e, of env s w] r
  show ?thesis by (auto simp: rollEntry_switch_def)
qed

lemma rollEntry_functions_returns:
  "\<forall>f \<in> set fs. ranges_ok f \<Longrightarrow> \<exists>s' w'. rollEntry_functions env fs s w = Some (s', w')"
proof (induction fs arbitrary: s w)
  case Nil
  then show ?case by simp
next
  case (Cons f fs)
  then have "ranges_ok f" by simp
  from rollEntry_switch_returns [OF this, of env s w] obtain s1 w1
    where "rollEntry_switch env f s w = Some (s1, w1)" by blast
  with Cons.IH [of s1 w1] Cons.prems show ?case by simp
qed

lemma rollEntry_count_returns:
  "\<forall>f \<in> set fs. ranges_ok f \<Longrightarrow> \<exists>c w'. rollEntry_count fs count w = Some (c, w')"
proof (induction fs arbitrary: count w)
  case Nil
  then show ?case by simp
next
  case (Cons f fs)
  then have "span_ok (Count f)" by (simp add: ranges_ok_def)
  from RollValue_returns [OF this, of w] obtain c w1
    where "RollValue (Count f) w = Some (c, w1)" by blast
  with Cons.IH [of c w1] Cons.IH [of count w] Cons.prems show ?case by simp
qed

lemma rollEntry_selected_returns:
  assumes "Type e = ''item''"
    and "ItemByName env (''minecraft:'' @ TrimPrefix (Name e) ''minecraft:'') 0 = Some it"
    and "\<forall>f \<in> set (Functions e). ranges_ok f"
  shows "\<exists>s w'. rollEntry_selected env e w = Some ((s, True), w')"
proof -
  from rollEntry_count_returns [OF assms(3), of 1 w] obtain c w1
    where c: "rollEntry_count (Functions e) 1 w = Some (c, w1)" by blast
  from rollEntry_functions_returns [OF assms(3), of env "NewStack env it c" w1] obtain s w2
    where "rollEntry_functions env (Functions e) (NewStack env it c) w1 = Some (s, w2)" by blast
  with c assms(1,2) show ?thesis
    by (simp add: rollEntry_selected_def Let_def)
qed

lemma rollEntry_single_weight_one:
  assumes "Entries p = [e]" "Weight e = 1"
  shows "rollEntry env p w =
     (case rollEntry_selected env e (w\<lparr>pos := Suc (pos w)\<rparr>) of
        None \<Rightarrow> None
      | Some (res, w') \<Rightarrow> Some (res, p, w'))"
  using assms
  by (simp add: rollEntry_unfold Intn_def word_sle_eq word_sless_alt split: option.splits)

lemma Generate_rolls_twice:
  assumes "rollEntry env p w = Some ((a, True), p, w1)"
    and "rollEntry env p w1 = Some ((b, True), p, w2)"
  shows "Generate_rolls env p 0 2 stacks w = Some (stacks @ [a, b], p, w2)"
proof -
  have "Generate_rolls env p 2 2 (stacks @ [a, b]) w2 = Some (stacks @ [a, b], p, w2)"
    by (subst Generate_rolls.simps) (simp add: word_sless_alt)
  with assms(2) have "Generate_rolls env p 1 2 (stacks @ [a]) w1 = Some (stacks @ [a, b], p, w2)"
    by (subst Generate_rolls.simps) (simp add: word_sless_alt)
  with assms(1) show ?thesis
    by (subst Generate_rolls.simps) (simp add: word_sless_alt)
qed

text \<open>
  Claim C5, amended. Take a pool with \<open>rolls = {min: 2, max: 2}\<close> and a single entry of
  type \<^verbatim>\<open>item\<close> with weight 1 whose identifier the registry resolves, and whose
  functions declare only ranges with a representable number of values. Then, for any state
  of the random source and whatever stacks have been collected before, the pool's two
  rolls append exactly two stacks \<open>a\<close> and \<open>b\<close>, and generation goes on with the
  remaining pools; the table that consists of this pool alone generates exactly
  \<open>[a, b]\<close>.
\<close>

theorem two_rolls_two_stacks:
  assumes "Rolls p = \<lparr>Min_val = 2, Max_val = 2\<rparr>"
    and "Entries p = [e]" and "Type e = ''item''" and "Weight e = 1"
    and "ItemByName env (''minecraft:'' @ TrimPrefix (Name e) ''minecraft:'') 0 = Some it"
    and "\<forall>f \<in> set (Functions e). ranges_ok f"
  shows "\<exists>a b w'.
     Generate_rolls env p 0 2 stacks w = Some (stacks @ [a, b], p, w') \<and>
     Generate_pools env (p # ps) stacks w =
       (case Generate_pools env ps (stacks @ [a, b]) w' of
          None \<Rightarrow> None
        | Some (out, ps', w'') \<Rightarrow> Some (out, p # ps', w'')) \<and>
     LootTable_Generate env \<lparr>Pools = [p]\<rparr> w = Some ([a, b], \<lparr>Pools = [p]\<rparr>, w')"
proof -
  have sel: "\<exists>s w'. rollEntry env p w = Some ((s, True), p, w')" for w
    using rollEntry_selected_returns [OF assms(3,5,6), of "w\<lparr>pos := Suc (pos w)\<rparr>"]
    by (auto simp: rollEntry_single_weight_one [OF assms(2,4)])
  from sel [of w] obtain a w1 where 1: "rollEntry env p w = Some ((a, True), p, w1)" by blast
  from sel [of w1] obtain b w2 where 2: "rollEntry env p w1 = Some ((b, True), p, w2)" by blast
  have r: "RollValue (Rolls p) w = Some (2, w)"
    by (simp add: assms(1) RollValue_def)
  note g = Generate_rolls_twice [OF 1 2]
  from Generate_pools_skip [OF r g [of stacks], of ps]
  have ps: "Generate_pools env (p # ps) stacks w =
       (case Generate_pools env ps (stacks @ [a, b]) w2 of
          None \<Rightarrow> None
        | Some (out, ps', w'') \<Rightarrow> Some (out, p # ps', w''))" .
  from Generate_pools_skip [OF r g [of "[]"], of "[]"]
  have "LootTable_Generate env \<lparr>Pools = [p]\<rparr> w = Some ([a, b], \<lparr>Pools = [p]\<rparr>, w2)"
    by (simp add: LootTable_Generate_def)
  with g [of stacks] ps show ?thesis by blast
qed

text \<open>
  Claim C5 as stated, for every such table, does not hold: when the entry sets its count
  from the range \<open>{0, 2\<^sup>6\<^sup>3 - 1}\<close>, the first roll panics in \<^verbatim>\<open>rand.Intn\<close> and the
  call yields no stacks.
\<close>

theorem two_rolls_function_overflow_counterexample:
  "LootTable_Generate demo_env
     \<lparr>Pools = [\<lparr>Rolls = \<lparr>Min_val = 2, Max_val = 2\<rparr>,
                Entries = [item_entry ''stick'' 1
                  [(function_named ''set_count'')
                     \<lparr>Count := \<lparr>Min_val = 0, Max_val = 0x7FFFFFFFFFFFFFFF\<rparr>\<rparr>]]\<rparr>]\<rparr>
     (runtime_of [])
   = None"
  by (simp add: LootTable_Generate_def RollValue_def fixed_def Generate_rolls.simps
        rollEntry_def item_entry_def Intn_def word_sle_eq word_sless_alt function_named_def
        rollEntry_selected_def TrimPrefix_def demo_env_def runtime_of_def)

theorem two_rolls_two_stacks_witness:
  "\<exists>a b w'.
     LootTable_Generate demo_env
       \<lparr>Pools = [\<lparr>Rolls = \<lparr>Min_val = 2, Max_val = 2\<rparr>,
                  Entries = [item_entry ''minecraft:stick'' 1
                    [(function_named ''set_count'')\<lparr>Count := \<lparr>Min_val = 1, Max_val = 4\<rparr>\<rparr>]]\<rparr>]\<rparr>
       (runtime_of [5, 6, 7, 8])
     = Some ([a, b],
         \<lparr>Pools = [\<lparr>Rolls = \<lparr>Min_val = 2, Max_val = 2\<rparr>,
                  Entries = [item_entry ''minecraft:stick'' 1
                    [(function_named ''set_count'')\<lparr>Count := \<lparr>Min_val = 1, Max_val = 4\<rparr>\<rparr>]]\<rparr>]\<rparr>,
         w')"
proof -
  let ?e = "item_entry ''minecraft:stick'' 1
              [(function_named ''set_count'')\<lparr>Count := \<lparr>Min_val = 1, Max_val = 4\<rparr>\<rparr>]"
  let ?p = "\<lparr>Rolls = \<lparr>Min_val = 2, Max_val = 2\<rparr>, Entries = [?e]\<rparr>"
  have h: "Rolls ?p = \<lparr>Min_val = 2, Max_val = 2\<rparr>" "Entries ?p = [?e]"
    "Type ?e = ''item''" "Weight ?e = 1"
    "ItemByName demo_env (''minecraft:'' @ TrimPrefix (Name ?e) ''minecraft:'') 0
       = Some (OtherItem ''stick'')"
    "\<forall>f \<in> set (Functions ?e). ranges_ok f"
    by (simp_all add: item_entry_def function_named_def demo_env_def TrimPrefix_def
        ranges_ok_def span_ok_def fixed_def)
  from two_rolls_two_stacks [OF h, of "[]" "runtime_of [5, 6, 7, 8]" "[]"]
  show ?thesis by blast
qed

section \<open>The order of the function pipeline\<close>

lemma rollEntry_switch_set_count:
  "is_set_count f \<Longrightarrow> rollEntry_switch env f s w = Some (s, w)"
  by (simp add: is_set_count_def rollEntry_switch_def)

lemma rollEntry_functions_filter:
  "rollEntry_functions env (filter (\<lambda>f. \<not> is_set_count f) fs) s w
     = rollEntry_functions env fs s w"
  by (induction fs arbitrary: s w)
     (simp_all add: rollEntry_switch_set_count split: Option.bind_split)

lemma rollEntry_count_filter:
  "rollEntry_count (filter is_set_count fs) count w = rollEntry_count fs count w"
  by (induction fs arbitrary: count w)
     (simp_all add: is_set_count_def split: Option.bind_split)

lemma pipeline_spec_append:
  "pipeline_spec env setCount (fs @ gs) s w =
     (case pipeline_spec env setCount fs s w of
        None \<Rightarrow> None
      | Some (s', w') \<Rightarrow> pipeline_spec env setCount gs s' w')"
  by (induction fs arbitrary: s w) (simp_all split: Option.bind_split option.splits)

lemma pipeline_spec_set_counts:
  assumes law: "\<forall>c c'. setCount (NewStack env it c) c' = NewStack env it c'"
    and "\<forall>f \<in> set fs. is_set_count f"
  shows "pipeline_spec env setCount fs (NewStack env it count) w =
     (case rollEntry_count fs count w of
        None \<Rightarrow> None
      | Some (c, w') \<Rightarrow> Some (NewStack env it c, w'))"
  using assms(2)
proof (induction fs arbitrary: count w)
  case Nil
  then show ?case by simp
next
  case (Cons f fs)
  then have f: "Function f = ''set_count''" by (simp add: is_set_count_def)
  show ?case
  proof (cases "RollValue (Count f) w")
    case None
    with f show ?thesis by simp
  next
    case (Some r)
    obtain c w1 where r: "r = (c, w1)" by (cases r)
    from Cons.IH [of c w1] Cons.prems Some f law show ?thesis
      by (simp add: r)
  qed
qed

lemma pipeline_spec_others:
  "\<forall>f \<in> set fs. \<not> is_set_count f \<Longrightarrow>
   pipeline_spec env setCount fs s w = rollEntry_functions env fs s w"
proof (induction fs arbitrary: s w)
  case Nil
  then show ?case by simp
next
  case (Cons f fs)
  then have "Function f \<noteq> ''set_count''" by (simp add: is_set_count_def)
  with Cons show ?case
    by (simp split: Option.bind_split)
qed

text \<open>
  Claim C2, amended. For a selected entry of type \<^verbatim>\<open>item\<close> whose identifier resolves,
  the code behaves as the declared-order pipeline of the specification run on the function
  list with all its \<^verbatim>\<open>set_count\<close> functions moved to the front (in their declared order,
  so that the last one wins): they roll first; the remaining functions are then applied in
  declared order, each to the stack produced by the previous one, and draw in that order.
  The operation \<open>setCount\<close> of the specification's pipeline is any one that turns a freshly
  minted stack into the stack minted with the new quantity.
\<close>

theorem set_counts_run_first:
  assumes "Type e = ''item''"
    and "ItemByName env (''minecraft:'' @ TrimPrefix (Name e) ''minecraft:'') 0 = Some it"
    and law: "\<forall>c c'. setCount (NewStack env it c) c' = NewStack env it c'"
  shows "rollEntry_selected env e w =
     (case pipeline_spec env setCount (set_counts_first (Functions e)) (NewStack env it 1) w of
        None \<Rightarrow> None
      | Some (s, w') \<Rightarrow> Some ((s, True), w'))"
proof -
  have "pipeline_spec env setCount (set_counts_first (Functions e)) (NewStack env it 1) w =
     (case rollEntry_count (Functions e) 1 w of
        None \<Rightarrow> None
      | Some (c, w1) \<Rightarrow> rollEntry_functions env (Functions e) (NewStack env it c) w1)"
    unfolding set_counts_first_def pipeline_spec_append
    by (simp add: pipeline_spec_set_counts [OF law] pipeline_spec_others
        rollEntry_count_filter rollEntry_functions_filter split: option.splits)
  with assms(1,2) show ?thesis
    by (simp add: rollEntry_selected_def Let_def split: option.splits Option.bind_splits)
qed

text \<open>
  Claim C2 as stated fails when \<^verbatim>\<open>set_count\<close> is declared after a function that
  draws. With the raw draws 0 and 3, the code gives the first draw to \<^verbatim>\<open>set_count\<close>
  (count 1) and the second to \<^verbatim>\<open>enchant_with_levels\<close>; the pipeline in declared order
  gives the first to \<^verbatim>\<open>enchant_with_levels\<close> and the second to \<^verbatim>\<open>set_count\<close>
  (count 4).
\<close>

theorem declared_order_counterexample:
  "rollEntry_selected demo_env
     (item_entry ''stick'' 1
        [(function_named ''enchant_with_levels'')\<lparr>Levels := \<lparr>Min_val = 1, Max_val = 30\<rparr>\<rparr>,
         (function_named ''set_count'')\<lparr>Count := \<lparr>Min_val = 1, Max_val = 4\<rparr>\<rparr>])
     (runtime_of [0, 3])
   = Some (((OtherItem ''stick'', 1, []), True), (runtime_of [0, 3])\<lparr>pos := 2\<rparr>) \<and>
   pipeline_spec demo_env demo_setCount
     [(function_named ''enchant_with_levels'')\<lparr>Levels := \<lparr>Min_val = 1, Max_val = 30\<rparr>\<rparr>,
      (function_named ''set_count'')\<lparr>Count := \<lparr>Min_val = 1, Max_val = 4\<rparr>\<rparr>]
     (NewStack demo_env (OtherItem ''stick'') 1)
     (runtime_of [0, 3])
   = Some ((OtherItem ''stick'', 4, []), (runtime_of [0, 3])\<lparr>pos := 2\<rparr>)"
  by (simp add: rollEntry_selected_def item_entry_def function_named_def TrimPrefix_def
      RollValue_def Intn_def word_sle_eq word_sless_alt rollEntry_switch_def
      applyEnchantWithLevels_def getAllEnchantments_def demo_setCount_def fixed_def
      demo_env_def runtime_of_def)

theorem set_counts_run_first_witness:
  "rollEntry_selected demo_env
     (item_entry ''stick'' 1
        [(function_named ''enchant_with_levels'')\<lparr>Levels := \<lparr>Min_val = 1, Max_val = 30\<rparr>\<rparr>,
         (function_named ''set_count'')\<lparr>Count := \<lparr>Min_val = 1, Max_val = 4\<rparr>\<rparr>])
     (runtime_of [0, 3])
   = (case pipeline_spec demo_env demo_setCount
       [(function_named ''set_count'')\<lparr>Count := \<lparr>Min_val = 1, Max_val = 4\<rparr>\<rparr>,
        (function_named ''enchant_with_levels'')\<lparr>Levels := \<lparr>Min_val = 1, Max_val = 30\<rparr>\<rparr>]
       (NewStack demo_env (OtherItem ''stick'') 1)
       (runtime_of [0, 3]) of
        None \<Rightarrow> None
      | Some (s, w') \<Rightarrow> Some ((s, True), w'))"
proof -
  let ?e = "item_entry ''stick'' 1
        [(function_named ''enchant_with_levels'')\<lparr>Levels := \<lparr>Min_val = 1, Max_val = 30\<rparr>\<rparr>,
         (function_named ''set_count'')\<lparr>Count := \<lparr>Min_val = 1, Max_val = 4\<rparr>\<rparr>]"
  have h: "Type ?e = ''item''"
    "ItemByName demo_env (''minecraft:'' @ TrimPrefix (Name ?e) ''minecraft:'') 0
       = Some (OtherItem ''stick'')"
    "\<forall>c c'. demo_setCount (NewStack demo_env (OtherItem ''stick'') c) c'
       = NewStack demo_env (OtherItem ''stick'') c'"
    by (simp_all add: item_entry_def demo_env_def TrimPrefix_def demo_setCount_def)
  have f: "set_counts_first (Functions ?e) =
       [(function_named ''set_count'')\<lparr>Count := \<lparr>Min_val = 1, Max_val = 4\<rparr>\<rparr>,
        (function_named ''enchant_with_levels'')\<lparr>Levels := \<lparr>Min_val = 1, Max_val = 30\<rparr>\<rparr>]"
    by (simp add: set_counts_first_def is_set_count_def item_entry_def function_named_def)
  from set_counts_run_first [OF h, of "runtime_of [0, 3]"] f show ?thesis by simp
qed

end
